theory Spec2Isabelle
  imports Main
begin

section \<open>The worker: states, errors and counters\<close>

text \<open>
  The worker of \<^verbatim>\<open>packages/worker\<close> keeps its lifecycle state and three gauges in
  subjects it owns. The model reads every subject by its current value: the worker is a
  record, an operation takes the record and returns the one it leaves behind.
  An exception is a value of \<open>error\<close>; the classes are the ones the worker raises or
  tests with \<^verbatim>\<open>instanceof\<close>.
\<close>

datatype State =
  INITIALIZED | RUNNING | STOPPED | STOPPING | DRAINING | DRAINED | FAILED | SUSPENDED

datatype error =
    IllegalStateError string
  | TypeError string
  | SyntaxError string
  | ShutdownError
  | WorkflowError string
  | GracefulShutdownPeriodExpiredError string
  | SystemError string
  | OtherError string

datatype level = Debug | Info | Warn | Error

type_synonym log_entry = "level \<times> string"

record Worker =
  state :: State
  numInFlightActivations :: int
  numInFlightActivities :: int
  numRunningWorkflowInstances :: int
  log :: "log_entry list"

definition newWorker :: Worker where
  "newWorker = \<lparr> state = INITIALIZED, numInFlightActivations = 0, numInFlightActivities = 0,
     numRunningWorkflowInstances = 0, log = [] \<rparr>"

definition logMsg :: "level \<Rightarrow> string \<Rightarrow> Worker \<Rightarrow> Worker" where
  "logMsg l m w = w\<lparr> log := log w @ [(l, m)] \<rparr>"

text \<open>The setter of \<^verbatim>\<open>state\<close>: it logs and publishes the new state.\<close>

definition setState :: "State \<Rightarrow> Worker \<Rightarrow> Worker" where
  "setState s w = (logMsg Info ''Worker state changed'' w)\<lparr> state := s \<rparr>"

section \<open>Lifecycle operations\<close>

text \<open>
  Each operation returns the exception it throws, if any, and the worker it leaves. The
  guard is the first statement of each method, so a throwing call has changed nothing.
\<close>

definition suspendPolling :: "Worker \<Rightarrow> error option \<times> Worker" where
  "suspendPolling w =
     (if state w \<noteq> RUNNING then (Some (IllegalStateError ''Not running''), w)
      else (None, setState SUSPENDED w))"

definition resumePolling :: "Worker \<Rightarrow> error option \<times> Worker" where
  "resumePolling w =
     (if state w \<noteq> SUSPENDED then (Some (IllegalStateError ''Not suspended''), w)
      else (None, setState RUNNING w))"

definition isSuspended :: "Worker \<Rightarrow> bool" where
  "isSuspended w = (state w = SUSPENDED)"

text \<open>
  \<^verbatim>\<open>shutdown\<close> moves to \<open>STOPPING\<close> and asks the bridge to shut down; the bridge's
  acknowledgement arrives later and moves the worker to \<open>DRAINING\<close>.
\<close>

definition shutdown :: "Worker \<Rightarrow> error option \<times> Worker" where
  "shutdown w =
     (if state w \<noteq> RUNNING \<and> state w \<noteq> SUSPENDED
      then (Some (IllegalStateError ''Not running and not suspended''), w)
      else (None, setState STOPPING w))"

definition shutdownAcknowledged :: "Worker \<Rightarrow> Worker" where
  "shutdownAcknowledged w = setState DRAINING w"

text \<open>
  \<^verbatim>\<open>run\<close> up to the point where it starts to await the pipelines, and the handlers of
  the merged pipelines' end: the two task pipelines completing makes the worker
  \<open>DRAINED\<close>, everything completing makes it \<open>STOPPED\<close>, and an error that reaches
  \<^verbatim>\<open>run\<close> makes it \<open>FAILED\<close>. An error is fatal when it reaches this handler.
\<close>

definition run :: "Worker \<Rightarrow> error option \<times> Worker" where
  "run w =
     (if state w \<noteq> INITIALIZED then (Some (IllegalStateError ''Poller was aleady started''), w)
      else (None, setState RUNNING w))"

definition pipelinesComplete :: "Worker \<Rightarrow> Worker" where
  "pipelinesComplete w = setState DRAINED w"

definition runComplete :: "Worker \<Rightarrow> Worker" where
  "runComplete w = setState STOPPED w"

definition runError :: "error \<Rightarrow> Worker \<Rightarrow> Worker" where
  "runError e w = setState FAILED (logMsg Error ''Worker failed'' w)"

lemma state_setState [simp]: "state (setState s w) = s"
  by (simp add: setState_def)

lemma gauges_setState [simp]:
  "numInFlightActivations (setState s w) = numInFlightActivations w"
  "numInFlightActivities (setState s w) = numInFlightActivities w"
  "numRunningWorkflowInstances (setState s w) = numRunningWorkflowInstances w"
  by (simp_all add: setState_def logMsg_def)

text \<open>
  C5. The lifecycle operations enforce their preconditions: \<^verbatim>\<open>run\<close> goes through only
  from \<open>INITIALIZED\<close>, \<^verbatim>\<open>suspendPolling\<close> only from \<open>RUNNING\<close>, \<^verbatim>\<open>resumePolling\<close> only
  from \<open>SUSPENDED\<close>, \<^verbatim>\<open>shutdown\<close> only from \<open>RUNNING\<close> or \<open>SUSPENDED\<close>. From the legal
  state the call throws nothing and moves the worker to the next state; from every other
  state it throws an \<open>IllegalStateError\<close> and leaves the worker as it was.
\<close>

theorem C5_lifecycle_preconditions:
  "(state w = INITIALIZED \<longrightarrow> fst (run w) = None \<and> state (snd (run w)) = RUNNING) \<and>
   (state w \<noteq> INITIALIZED \<longrightarrow>
      (\<exists>m. fst (run w) = Some (IllegalStateError m)) \<and> snd (run w) = w) \<and>
   (state w = RUNNING \<longrightarrow>
      fst (suspendPolling w) = None \<and> state (snd (suspendPolling w)) = SUSPENDED) \<and>
   (state w \<noteq> RUNNING \<longrightarrow>
      (\<exists>m. fst (suspendPolling w) = Some (IllegalStateError m)) \<and> snd (suspendPolling w) = w) \<and>
   (state w = SUSPENDED \<longrightarrow>
      fst (resumePolling w) = None \<and> state (snd (resumePolling w)) = RUNNING) \<and>
   (state w \<noteq> SUSPENDED \<longrightarrow>
      (\<exists>m. fst (resumePolling w) = Some (IllegalStateError m)) \<and> snd (resumePolling w) = w) \<and>
   (state w = RUNNING \<or> state w = SUSPENDED \<longrightarrow>
      fst (shutdown w) = None \<and> state (snd (shutdown w)) = STOPPING) \<and>
   (state w \<noteq> RUNNING \<and> state w \<noteq> SUSPENDED \<longrightarrow>
      (\<exists>m. fst (shutdown w) = Some (IllegalStateError m)) \<and> snd (shutdown w) = w)"
  by (auto simp: run_def suspendPolling_def resumePolling_def shutdown_def)

theorem C5_lifecycle_preconditions_witness:
  "fst (run newWorker) = None \<and> state (snd (run newWorker)) = RUNNING \<and>
   fst (suspendPolling newWorker) = Some (IllegalStateError ''Not running'') \<and>
   snd (suspendPolling newWorker) = newWorker \<and>
   fst (resumePolling newWorker) = Some (IllegalStateError ''Not suspended'') \<and>
   snd (resumePolling newWorker) = newWorker \<and>
   fst (shutdown newWorker) = Some (IllegalStateError ''Not running and not suspended'') \<and>
   snd (shutdown newWorker) = newWorker \<and>
   fst (shutdown (snd (run newWorker))) = None \<and>
   state (snd (shutdown (snd (run newWorker)))) = STOPPING \<and>
   fst (run (snd (run newWorker))) = Some (IllegalStateError ''Poller was aleady started'')"
  using C5_lifecycle_preconditions [of newWorker]
        C5_lifecycle_preconditions [of "snd (run newWorker)"]
  by (simp add: newWorker_def run_def suspendPolling_def resumePolling_def shutdown_def)

section \<open>Workflow activations\<close>

text \<open>
  A decoded activation: the run it is for and its jobs. A job is a protobuf \<^verbatim>\<open>oneof\<close>;
  the variants carry what the worker reads of them. The bridge sets \<^verbatim>\<open>removeFromCache\<close>
  to \<^verbatim>\<open>true\<close> whenever that is the job's variant, and so does every activation the
  worker builds itself, so the variant carries no value. \<^verbatim>\<open>randomnessSeed\<close> is a
  \<^verbatim>\<open>Long\<close> object when present.
\<close>

record StartWorkflow =
  workflowId :: string
  workflowType :: string
  randomnessSeed :: "nat option"

datatype WFActivationJob =
    startWorkflow StartWorkflow
  | fireTimer string
  | resolveActivity string
  | signalWorkflow string
  | queryWorkflow string
  | cancelWorkflow
  | updateRandomSeed nat
  | notifyHasChange
  | resolveChildWorkflowExecutionStart string
  | resolveChildWorkflowExecution string
  | removeFromCache

record WFActivation =
  runId :: string
  jobs :: "WFActivationJob list"
  isReplaying :: bool

text \<open>
  The activation the worker builds in three places to evict a run:
  \<^verbatim>\<open>new WFActivation({ runId, jobs: [{ removeFromCache: true }] })\<close>.
\<close>

definition evictionActivation :: "string \<Rightarrow> WFActivation" where
  "evictionActivation r = \<lparr> runId = r, jobs = [removeFromCache], isReplaying = False \<rparr>"

section \<open>The poll loop\<close>

text \<open>
  \<^verbatim>\<open>pollLoop$\<close> reads the current state, and by it polls, waits for the state to leave
  \<open>SUSPENDED\<close>, or throws; \<^verbatim>\<open>repeat()\<close> starts it again when the step completes, and
  \<^verbatim>\<open>catchError\<close> turns a \<open>ShutdownError\<close> into completion and rethrows everything else.
  The switch is \<open>pollGate\<close>.
\<close>

datatype gate = CallPoll | AwaitNotSuspended | Unexpected

fun pollGate :: "State \<Rightarrow> gate" where
  "pollGate RUNNING = CallPoll"
| "pollGate STOPPING = CallPoll"
| "pollGate DRAINING = CallPoll"
| "pollGate SUSPENDED = AwaitNotSuspended"
| "pollGate _ = Unexpected"

fun showState :: "State \<Rightarrow> string" where
  "showState INITIALIZED = ''INITIALIZED''"
| "showState RUNNING = ''RUNNING''"
| "showState STOPPED = ''STOPPED''"
| "showState STOPPING = ''STOPPING''"
| "showState DRAINING = ''DRAINING''"
| "showState DRAINED = ''DRAINED''"
| "showState FAILED = ''FAILED''"
| "showState SUSPENDED = ''SUSPENDED''"

text \<open>
  What happens around the loop while it waits, in the order it happens: the state
  subject publishes a state, or the bridge settles the poll in flight (with an error or
  with the decoded task). The poll function is the caller's wrapper around the bridge
  call: it maps the bridge's outcome to what the loop sees.

  The loop is in one of three places: about to read the state, waiting for the poll it
  issued, or waiting for the state to leave \<open>SUSPENDED\<close>. When the events run out it is
  still waiting: \<open>Pending\<close>.
\<close>

datatype 'b poll_event = StateChange State | PollSettled "error + 'b"

datatype mode = Inspect | InFlight | Waiting

datatype loop_status = Pending | Completed | Errored error

record 'a loop_result =
  emitted :: "'a list"
  polls :: nat
  status :: loop_status

definition stopped :: "loop_status \<Rightarrow> 'a loop_result" where
  "stopped s = \<lparr> emitted = [], polls = 0, status = s \<rparr>"

definition emit :: "'a \<Rightarrow> 'a loop_result \<Rightarrow> 'a loop_result" where
  "emit v r = r\<lparr> emitted := v # emitted r \<rparr>"

definition issue :: "'a loop_result \<Rightarrow> 'a loop_result" where
  "issue r = r\<lparr> polls := Suc (polls r) \<rparr>"

function pollLoop ::
  "(error + 'b \<Rightarrow> error + 'a) \<Rightarrow> mode \<Rightarrow> State \<Rightarrow> 'b poll_event list \<Rightarrow> 'a loop_result"
where
  "pollLoop pollFn Inspect st evs =
     (case pollGate st of
        CallPoll \<Rightarrow> issue (pollLoop pollFn InFlight st evs)
      | AwaitNotSuspended \<Rightarrow> pollLoop pollFn Waiting st evs
      | Unexpected \<Rightarrow> stopped (Errored (IllegalStateError (''Unexpected state '' @ showState st))))"
| "pollLoop pollFn InFlight st [] = stopped Pending"
| "pollLoop pollFn InFlight st (StateChange s # evs) = pollLoop pollFn InFlight s evs"
| "pollLoop pollFn InFlight st (PollSettled r # evs) =
     (case pollFn r of
        Inr v \<Rightarrow> emit v (pollLoop pollFn Inspect st evs)
      | Inl e \<Rightarrow> if e = ShutdownError then stopped Completed else stopped (Errored e))"
| "pollLoop pollFn Waiting st [] = stopped Pending"
| "pollLoop pollFn Waiting st (StateChange s # evs) =
     (if s \<noteq> SUSPENDED then pollLoop pollFn Inspect s evs else pollLoop pollFn Waiting s evs)"
| "pollLoop pollFn Waiting st (PollSettled r # evs) = pollLoop pollFn Waiting st evs"
  by pat_completeness auto
termination
  by (relation "measure (\<lambda>(f, m, st, evs). 2 * length evs + (if m = Inspect then 1 else 0))") auto

text \<open>
  The poll function of \<^verbatim>\<open>workflowPoll$\<close>: the bridge call and the decoding stand in one
  \<^verbatim>\<open>try\<close>; a \<open>WorkflowError\<close> caught there becomes an activation with the one job
  \<open>removeFromCache\<close> for the error's run, every other error is thrown on.
\<close>

fun workflowPollFn :: "error + WFActivation \<Rightarrow> error + WFActivation" where
  "workflowPollFn (Inr activation) = Inr activation"
| "workflowPollFn (Inl (WorkflowError r)) = Inr (evictionActivation r)"
| "workflowPollFn (Inl err) = Inl err"

definition workflowPoll :: "State \<Rightarrow> WFActivation poll_event list \<Rightarrow> WFActivation loop_result" where
  "workflowPoll st evs = pollLoop workflowPollFn Inspect st evs"


lemma polls_stopped [simp]: "polls (stopped s) = 0"
  by (simp add: stopped_def)

lemma polls_emit [simp]: "polls (emit v r) = polls r"
  by (simp add: emit_def)

lemma polls_issue [simp]: "polls (issue r) = Suc (polls r)"
  by (simp add: issue_def)







section \<open>The workflow operator\<close>

text \<open>
  The sandbox side is outside the worker: creating a workflow in an isolate context,
  injecting the dependencies and activating are calls that return or throw. The model
  takes their outcomes as functions of their arguments, and records every call the step
  makes to a workflow, in order, so that what reaches the sandbox can be stated.
  \<^verbatim>\<open>instrument\<close> runs its callback in a span and returns or throws what the callback
  does; the spans of the workflow side are not modelled. The eviction that every group
  receives once the worker is idle while draining is an activation like the others for
  the step.
\<close>

type_synonym bytes = "nat list"

record WorkflowInfo =
  filename :: string
  infoRunId :: string
  infoWorkflowId :: string
  namespace :: string
  taskQueue :: string
  infoIsReplaying :: bool

record Workflow =
  info :: WorkflowInfo
  seed :: nat

record Options =
  optTaskQueue :: string
  optNamespace :: string

record Sandbox =
  createOutcome :: "WorkflowInfo \<Rightarrow> error option"
  injectOutcome :: "Workflow \<Rightarrow> error option"
  activateOutcome :: "Workflow \<Rightarrow> WFActivation \<Rightarrow> error + bytes"

datatype sandbox_call =
    Create WorkflowInfo
  | InjectDependencies Workflow
  | Activate Workflow WFActivation
  | Dispose Workflow

text \<open>
  A failure is what \<^verbatim>\<open>errorToFailure\<close> makes of an error (it is taken to return for
  every error), or a literal message. A completion is the buffer the sandbox returned,
  or the failed completion the worker encodes itself for a run.
\<close>

datatype Failure = Message string | ErrorToFailure error

datatype WFActivationCompletion = Encoded bytes | FailedCompletion string Failure

record step_output =
  close :: bool
  completion :: "WFActivationCompletion option"

definition disposeIfAny :: "Workflow option \<Rightarrow> sandbox_call list" where
  "disposeIfAny workflow = (case workflow of None \<Rightarrow> [] | Some wfl \<Rightarrow> [Dispose wfl])"

definition isStartWorkflow :: "WFActivationJob \<Rightarrow> bool" where
  "isStartWorkflow j = (case j of startWorkflow attrs \<Rightarrow> True | _ \<Rightarrow> False)"

text \<open>
  The body of the \<^verbatim>\<open>try\<close> in the step of \<^verbatim>\<open>workflowOperator\<close>. It returns what the body
  returns or throws, the worker as the body leaves it, the calls made to the sandbox, and
  the local variable \<^verbatim>\<open>workflow\<close> as the \<^verbatim>\<open>catch\<close> block will read it. The message of
  the \<open>TypeError\<close> ends with the JSON text of the job, which is left out.
\<close>

definition activateWorkflow ::
  "Sandbox \<Rightarrow> Worker \<Rightarrow> Workflow \<Rightarrow> WFActivation \<Rightarrow> bool \<Rightarrow> sandbox_call list \<Rightarrow>
   (error + Workflow option \<times> step_output) \<times> Worker \<times> sandbox_call list \<times> Workflow option"
where
  "activateWorkflow sb w wfl activation cl calls =
     (case activateOutcome sb wfl activation of
        Inl e \<Rightarrow> (Inl e, w, calls @ [Activate wfl activation], Some wfl)
      | Inr buf \<Rightarrow>
          (Inr (Some wfl, \<lparr> close = cl, completion = Some (Encoded buf) \<rparr>),
           logMsg Debug ''Completed activation'' w,
           calls @ [Activate wfl activation], Some wfl))"

definition processActivation ::
  "Options \<Rightarrow> Sandbox \<Rightarrow> Worker \<Rightarrow> Workflow option \<Rightarrow> WFActivation \<Rightarrow>
   (error + Workflow option \<times> step_output) \<times> Worker \<times> sandbox_call list \<times> Workflow option"
where
  "processActivation opts sb w workflow activation =
     (let js = filter (\<lambda>j. j \<noteq> removeFromCache) (jobs activation);
          cl = (length js < length (jobs activation));
          activation' = activation\<lparr> jobs := js \<rparr>
      in
        if length js = 0 then
          (if \<not> cl
           then (Inl (IllegalStateError ''Got a Workflow activation with no jobs''),
                 w, disposeIfAny workflow, workflow)
           else (Inr (None, \<lparr> close = cl, completion = None \<rparr>),
                 logMsg Debug ''Disposing workflow'' w, disposeIfAny workflow, workflow))
        else
          (case workflow of
             Some wfl \<Rightarrow> activateWorkflow sb w wfl activation' cl []
           | None \<Rightarrow>
              (case find isStartWorkflow js of
                 Some (startWorkflow attrs) \<Rightarrow>
                   if \<not> (workflowId attrs \<noteq> [] \<and> workflowType attrs \<noteq> [] \<and>
                           randomnessSeed attrs \<noteq> None)
                   then (Inl (TypeError
                     ''Expected StartWorkflow with workflowId, workflowType and randomnessSeed''),
                     w, [], None)
                   else
                     (let w1 = logMsg Debug ''Creating workflow'' w;
                          w2 = w1\<lparr> numRunningWorkflowInstances :=
                                     numRunningWorkflowInstances w1 + 1 \<rparr>;
                          i = \<lparr> filename = workflowType attrs, infoRunId = runId activation',
                                infoWorkflowId = workflowId attrs, namespace = optNamespace opts,
                                taskQueue = optTaskQueue opts,
                                infoIsReplaying = isReplaying activation' \<rparr>;
                          createdWF = \<lparr> info = i, seed = the (randomnessSeed attrs) \<rparr>
                      in case createOutcome sb i of
                           Some e \<Rightarrow> (Inl e, w2, [Create i], None)
                         | None \<Rightarrow>
                            (case injectOutcome sb createdWF of
                               Some e \<Rightarrow>
                                 (Inl e, w2, [Create i, InjectDependencies createdWF],
                                  Some createdWF)
                             | None \<Rightarrow>
                                 activateWorkflow sb w2 createdWF activation' cl
                                   [Create i, InjectDependencies createdWF]))
               | _ \<Rightarrow>
                   (Inl (IllegalStateError
                     ''Received workflow activation for an untracked workflow with no start workflow job''),
                    w, [], None))))"

text \<open>
  The step with its \<^verbatim>\<open>catch\<close>: whatever the body throws is logged and becomes a failed
  completion for the run, the workflow is disposed, and the step returns with
  \<^verbatim>\<open>close: true\<close> and no state. The step itself throws nothing.
\<close>

definition workflowStep ::
  "Options \<Rightarrow> Sandbox \<Rightarrow> Worker \<Rightarrow> Workflow option \<Rightarrow> WFActivation \<Rightarrow>
   Workflow option \<times> step_output \<times> Worker \<times> sandbox_call list"
where
  "workflowStep opts sb w workflow activation =
     (case processActivation opts sb w workflow activation of
        (Inr (st, out), w', calls, var) \<Rightarrow> (st, out, w', calls)
      | (Inl err, w', calls, var) \<Rightarrow>
          (None,
           \<lparr> close = True,
             completion = Some (FailedCompletion (runId activation) (ErrorToFailure err)) \<rparr>,
           logMsg Error ''Failed to activate workflow'' w',
           calls @ disposeIfAny var))"

text \<open>
  Modelled from the spec: \<^verbatim>\<open>closeableGroupBy\<close> and \<^verbatim>\<open>mergeMapWithState\<close> of the worker's
  \<^verbatim>\<open>rxutils\<close>, which are not among the sources. Tasks are grouped by a key; a group is
  created when a task arrives for a key with no open group and starts from the initial
  state \<^verbatim>\<open>undefined\<close>; within a group each step receives the state the step before it
  returned; closing a group removes it, so that the next task for its key opens a fresh
  one. \<open>groups\<close> maps the key of every open group to its state.
\<close>

definition groupState :: "(string \<rightharpoonup> 'h option) \<Rightarrow> string \<Rightarrow> 'h option" where
  "groupState groups k = (case groups k of None \<Rightarrow> None | Some st \<Rightarrow> st)"

definition closeGroup :: "(string \<rightharpoonup> 'h option) \<Rightarrow> string \<Rightarrow> (string \<rightharpoonup> 'h option)" where
  "closeGroup groups k = groups(k := None)"

text \<open>
  One activation through a group of \<^verbatim>\<open>workflowOperator\<close>: the gauge of in-flight
  activations goes up when the activation enters the group and down when the step has
  returned; a closing step closes the group and takes one off the gauge of running
  workflow instances. The operator lets through the completions that are defined.
\<close>

record WorkflowPipeline =
  pworker :: Worker
  groups :: "string \<rightharpoonup> Workflow option"
  sandboxCalls :: "sandbox_call list"

definition workflowOperator ::
  "Options \<Rightarrow> Sandbox \<Rightarrow> WorkflowPipeline \<Rightarrow> WFActivation \<Rightarrow>
   WorkflowPipeline \<times> WFActivationCompletion option"
where
  "workflowOperator opts sb p activation =
     (let k = runId activation;
          w1 = (pworker p)\<lparr> numInFlightActivations := numInFlightActivations (pworker p) + 1 \<rparr>
      in case workflowStep opts sb w1 (groupState (groups p) k) activation of
           (st, out, w2, calls) \<Rightarrow>
             (let w3 = w2\<lparr> numInFlightActivations := numInFlightActivations w2 - 1 \<rparr>;
                  w4 = (if close out
                        then w3\<lparr> numRunningWorkflowInstances :=
                                   numRunningWorkflowInstances w3 - 1 \<rparr>
                        else w3)
              in (\<lparr> pworker = w4,
                    groups = (if close out then closeGroup (groups p) k
                              else (groups p)(k \<mapsto> st)),
                    sandboxCalls = sandboxCalls p @ calls \<rparr>,
                  completion out)))"

text \<open>
  The last stage of \<^verbatim>\<open>workflow$\<close>: each completion goes to the bridge. \<open>bridge\<close> is the
  bridge's answer to \<^verbatim>\<open>completeWorkflowActivation\<close>: nothing, or the error it rejects
  with. A \<open>WorkflowError\<close> puts an eviction of its run on the feedback subject; every
  other error is thrown on.
\<close>

definition workflowComplete ::
  "(WFActivationCompletion \<Rightarrow> error option) \<Rightarrow> WFActivationCompletion \<Rightarrow>
   error + WFActivation option"
where
  "workflowComplete bridge c =
     (case bridge c of
        None \<Rightarrow> Inr None
      | Some (WorkflowError r) \<Rightarrow> Inr (Some (evictionActivation r))
      | Some err \<Rightarrow> Inl err)"

text \<open>
  One activation through \<^verbatim>\<open>workflow$\<close>: the operator, then the completion stage. The
  result is the error that reaches \<^verbatim>\<open>run\<close>, if any (it makes the worker \<open>FAILED\<close>), the
  pipeline afterwards, and what was put on the feedback subject.
\<close>

definition workflowProcess ::
  "Options \<Rightarrow> Sandbox \<Rightarrow> (WFActivationCompletion \<Rightarrow> error option) \<Rightarrow> WorkflowPipeline \<Rightarrow>
   WFActivation \<Rightarrow> error option \<times> WorkflowPipeline \<times> WFActivation option"
where
  "workflowProcess opts sb bridge p activation =
     (case workflowOperator opts sb p activation of
        (p', None) \<Rightarrow> (None, p', None)
      | (p', Some c) \<Rightarrow>
          (case workflowComplete bridge c of
             Inl err \<Rightarrow> (Some err, p'\<lparr> pworker := runError err (pworker p') \<rparr>, None)
           | Inr feedback \<Rightarrow> (None, p', feedback)))"

text \<open>
  A worker that runs, a sandbox that accepts everything, a bridge that accepts every
  completion, and a first activation.
\<close>

definition acceptAll :: "WFActivationCompletion \<Rightarrow> error option" where
  "acceptAll c = None"

definition opts0 :: Options where
  "opts0 = \<lparr> optTaskQueue = ''q'', optNamespace = ''default'' \<rparr>"

definition sandbox0 :: Sandbox where
  "sandbox0 = \<lparr> createOutcome = (\<lambda>i. None), injectOutcome = (\<lambda>h. None),
     activateOutcome = (\<lambda>h a. Inr [length (jobs a)]) \<rparr>"

definition pipeline0 :: WorkflowPipeline where
  "pipeline0 = \<lparr> pworker = snd (run newWorker), groups = Map.empty, sandboxCalls = [] \<rparr>"

definition start0 :: StartWorkflow where
  "start0 = \<lparr> workflowId = ''w1'', workflowType = ''w'', randomnessSeed = Some 7 \<rparr>"

definition workflow0 :: Workflow where
  "workflow0 = \<lparr> info = \<lparr> filename = ''w'', infoRunId = ''r1'', infoWorkflowId = ''w1'',
       namespace = ''default'', taskQueue = ''q'', infoIsReplaying = False \<rparr>, seed = 7 \<rparr>"

lemma processActivation_no_jobs:
  "jobs activation = [] \<Longrightarrow>
   processActivation opts sb w workflow activation =
     (Inl (IllegalStateError ''Got a Workflow activation with no jobs''), w,
      disposeIfAny workflow, workflow)"
  by (simp add: processActivation_def)

lemma workflowStep_no_jobs:
  "jobs activation = [] \<Longrightarrow>
   workflowStep opts sb w workflow activation =
     (None,
      \<lparr> close = True,
        completion = Some (FailedCompletion (runId activation)
          (ErrorToFailure (IllegalStateError ''Got a Workflow activation with no jobs''))) \<rparr>,
      logMsg Error ''Failed to activate workflow'' w,
      disposeIfAny workflow @ disposeIfAny workflow)"
  by (simp add: workflowStep_def processActivation_no_jobs)

text \<open>
  C1, as the code has it. An activation with an empty job list (no job other than an
  eviction, and no eviction) makes the body of the step throw an \<open>IllegalStateError\<close>,
  and the step's own \<^verbatim>\<open>catch\<close> turns it into a failure of that run: the operator emits
  the failed completion for the run, disposes the run's workflow and closes its group,
  and the worker's state stays what it was. When the bridge accepts that completion no
  error reaches \<^verbatim>\<open>run\<close>.
\<close>

theorem C1_empty_activation_is_a_run_failure:
  "jobs activation = [] \<Longrightarrow>
   fst (processActivation opts sb w workflow activation) =
     Inl (IllegalStateError ''Got a Workflow activation with no jobs'') \<and>
   snd (workflowOperator opts sb p activation) =
     Some (FailedCompletion (runId activation)
       (ErrorToFailure (IllegalStateError ''Got a Workflow activation with no jobs''))) \<and>
   state (pworker (fst (workflowOperator opts sb p activation))) = state (pworker p) \<and>
   groups (fst (workflowOperator opts sb p activation)) (runId activation) = None \<and>
   sandboxCalls (fst (workflowOperator opts sb p activation)) =
     sandboxCalls p @ disposeIfAny (groupState (groups p) (runId activation))
       @ disposeIfAny (groupState (groups p) (runId activation)) \<and>
   (bridge (FailedCompletion (runId activation)
       (ErrorToFailure (IllegalStateError ''Got a Workflow activation with no jobs''))) = None \<longrightarrow>
    fst (workflowProcess opts sb bridge p activation) = None \<and>
    state (pworker (fst (snd (workflowProcess opts sb bridge p activation)))) = state (pworker p))"
  by (simp add: processActivation_no_jobs workflowProcess_def workflowOperator_def
      workflowStep_no_jobs workflowComplete_def closeGroup_def logMsg_def Let_def)

theorem C1_empty_activation_is_a_run_failure_witness:
  "fst (processActivation opts0 sandbox0 (pworker pipeline0) None
      \<lparr> runId = ''r1'', jobs = [], isReplaying = False \<rparr>) =
     Inl (IllegalStateError ''Got a Workflow activation with no jobs'') \<and>
   snd (workflowOperator opts0 sandbox0 pipeline0
      \<lparr> runId = ''r1'', jobs = [], isReplaying = False \<rparr>) =
     Some (FailedCompletion ''r1''
       (ErrorToFailure (IllegalStateError ''Got a Workflow activation with no jobs''))) \<and>
   state (pworker (fst (workflowOperator opts0 sandbox0 pipeline0
      \<lparr> runId = ''r1'', jobs = [], isReplaying = False \<rparr>))) = RUNNING \<and>
   fst (workflowProcess opts0 sandbox0 acceptAll pipeline0
      \<lparr> runId = ''r1'', jobs = [], isReplaying = False \<rparr>) = None"
  using C1_empty_activation_is_a_run_failure
    [of "\<lparr> runId = ''r1'', jobs = [], isReplaying = False \<rparr>" opts0 sandbox0
        "pworker pipeline0" None pipeline0 acceptAll]
  by (simp add: pipeline0_def run_def newWorker_def acceptAll_def)

text \<open>
  C1 as the specification states it fails: a running worker that processes an activation
  with no jobs emits a failed completion for the run and is still \<open>RUNNING\<close>, not
  \<open>FAILED\<close>.
\<close>

theorem C1_counterexample:
  "snd (workflowOperator opts0 sandbox0 pipeline0 \<lparr> runId = ''r1'', jobs = [], isReplaying = False \<rparr>)
     = Some (FailedCompletion ''r1''
         (ErrorToFailure (IllegalStateError ''Got a Workflow activation with no jobs''))) \<and>
   fst (workflowProcess opts0 sandbox0 acceptAll pipeline0
          \<lparr> runId = ''r1'', jobs = [], isReplaying = False \<rparr>) = None \<and>
   state (pworker (fst (snd (workflowProcess opts0 sandbox0 acceptAll pipeline0
          \<lparr> runId = ''r1'', jobs = [], isReplaying = False \<rparr>)))) = RUNNING \<and>
   state (pworker (fst (snd (workflowProcess opts0 sandbox0 acceptAll pipeline0
          \<lparr> runId = ''r1'', jobs = [], isReplaying = False \<rparr>)))) \<noteq> FAILED"
  by (simp add: workflowProcess_def workflowOperator_def workflowStep_no_jobs
      workflowComplete_def closeGroup_def logMsg_def Let_def pipeline0_def run_def newWorker_def
      setState_def acceptAll_def)

section \<open>What reaches the sandbox\<close>

text \<open>
  The \<^verbatim>\<open>Activator\<close> of \<^verbatim>\<open>packages/workflow/src/internals.ts\<close> has one handler per job
  variant. Two of them throw whatever the workflow's state is: \<^verbatim>\<open>notifyHasChange\<close> and
  \<^verbatim>\<open>removeFromCache\<close>. What the other handlers do depends on the sandbox and is part of
  \<open>activateOutcome\<close>.
\<close>

fun handlerThrows :: "WFActivationJob \<Rightarrow> error option" where
  "handlerThrows notifyHasChange = Some (OtherError ''Not implemented'')"
| "handlerThrows removeFromCache =
     Some (IllegalStateError ''removeFromCache activation job should not reach workflow'')"
| "handlerThrows _ = None"

text \<open>Activations processed one after the other, and the activations handed to \<^verbatim>\<open>activate\<close>.\<close>

fun workflowOperatorAll ::
  "Options \<Rightarrow> Sandbox \<Rightarrow> WorkflowPipeline \<Rightarrow> WFActivation list \<Rightarrow> WorkflowPipeline"
where
  "workflowOperatorAll opts sb p [] = p"
| "workflowOperatorAll opts sb p (a # as) =
     workflowOperatorAll opts sb (fst (workflowOperator opts sb p a)) as"

definition activated :: "sandbox_call list \<Rightarrow> WFActivation list" where
  "activated calls = concat (map (\<lambda>c. case c of Activate h a \<Rightarrow> [a] | _ \<Rightarrow> []) calls)"

lemma activated_append [simp]: "activated (xs @ ys) = activated xs @ activated ys"
  by (simp add: activated_def)

lemma activateWorkflow_activated:
  "activated (fst (snd (snd (activateWorkflow sb w h act cl calls)))) = activated calls @ [act]"
  by (simp add: activateWorkflow_def activated_def split: sum.splits)

lemma disposeIfAny_activated [simp]: "activated (disposeIfAny h) = []"
  by (cases h) (simp_all add: disposeIfAny_def activated_def)

lemma processActivation_activated:
  "a \<in> set (activated (fst (snd (snd (processActivation opts sb w workflow activation))))) \<Longrightarrow>
   removeFromCache \<notin> set (jobs a)"
  by (auto simp: processActivation_def Let_def activateWorkflow_activated
           split: if_splits option.splits WFActivationJob.splits)
     (simp_all add: activated_def)

lemma workflowStep_activated:
  "a \<in> set (activated (snd (snd (snd (workflowStep opts sb w workflow activation))))) \<Longrightarrow>
   removeFromCache \<notin> set (jobs a)"
  using processActivation_activated [of a opts sb w workflow activation]
  by (auto simp: workflowStep_def split: prod.splits sum.splits)

lemma workflowOperator_calls:
  "sandboxCalls (fst (workflowOperator opts sb p activation)) =
     sandboxCalls p @
     snd (snd (snd (workflowStep opts sb
       ((pworker p)\<lparr> numInFlightActivations := numInFlightActivations (pworker p) + 1 \<rparr>)
       (groupState (groups p) (runId activation)) activation)))"
  by (simp add: workflowOperator_def Let_def split: prod.splits)

lemma workflowOperator_activated:
  "a \<in> set (activated (sandboxCalls (fst (workflowOperator opts sb p activation)))) \<Longrightarrow>
   a \<in> set (activated (sandboxCalls p)) \<or> removeFromCache \<notin> set (jobs a)"
  by (auto simp: workflowOperator_calls dest: workflowStep_activated)

lemma workflowOperatorAll_activated:
  "a \<in> set (activated (sandboxCalls (workflowOperatorAll opts sb p as))) \<Longrightarrow>
   a \<in> set (activated (sandboxCalls p)) \<or> removeFromCache \<notin> set (jobs a)"
proof (induction as arbitrary: p)
  case Nil
  then show ?case by simp
next
  case (Cons x xs)
  from Cons.prems have
    "a \<in> set (activated (sandboxCalls (workflowOperatorAll opts sb (fst (workflowOperator opts sb p x)) xs)))"
    by simp
  from Cons.IH [OF this] show ?case
    using workflowOperator_activated [of a opts sb p x] by blast
qed

lemma handlerThrows_removeFromCache:
  "handlerThrows j =
     Some (IllegalStateError ''removeFromCache activation job should not reach workflow'')
   \<longleftrightarrow> j = removeFromCache"
  by (cases j) simp_all

lemma evict_mid_run:
  "sandboxCalls (workflowOperatorAll opts0 sandbox0 pipeline0
      [\<lparr> runId = ''r1'', jobs = [startWorkflow start0, removeFromCache], isReplaying = False \<rparr>]) =
   [Create (info workflow0), InjectDependencies workflow0,
    Activate workflow0 \<lparr> runId = ''r1'', jobs = [startWorkflow start0], isReplaying = False \<rparr>]"
  by (simp add: workflowOperator_def workflowStep_def processActivation_def
      activateWorkflow_def disposeIfAny_def isStartWorkflow_def groupState_def Let_def
      opts0_def sandbox0_def pipeline0_def start0_def workflow0_def)

text \<open>
  C9. Whatever activations the workflow operator processes, every activation it hands to
  a workflow's \<^verbatim>\<open>activate\<close> has had its \<open>removeFromCache\<close> jobs filtered out, so none of
  its jobs is one whose handler in the sandbox throws the \<open>IllegalStateError\<close> of
  \<^verbatim>\<open>Activator.removeFromCache\<close>.
\<close>

theorem C9_no_removeFromCache_reaches_activate:
  "sandboxCalls p = [] \<Longrightarrow>
   Activate h a \<in> set (sandboxCalls (workflowOperatorAll opts sb p as)) \<Longrightarrow>
   removeFromCache \<notin> set (jobs a) \<and>
   (\<forall>j \<in> set (jobs a). handlerThrows j \<noteq>
      Some (IllegalStateError ''removeFromCache activation job should not reach workflow''))"
proof -
  assume e: "sandboxCalls p = []"
    and c: "Activate h a \<in> set (sandboxCalls (workflowOperatorAll opts sb p as))"
  from c have "a \<in> set (activated (sandboxCalls (workflowOperatorAll opts sb p as)))"
    by (force simp: activated_def)
  from workflowOperatorAll_activated [OF this] e
  have n: "removeFromCache \<notin> set (jobs a)"
    by (simp add: activated_def)
  then show ?thesis
    by (auto simp: handlerThrows_removeFromCache)
qed

theorem C9_no_removeFromCache_reaches_activate_witness:
  "sandboxCalls pipeline0 = [] \<and>
   Activate workflow0 \<lparr> runId = ''r1'', jobs = [startWorkflow start0], isReplaying = False \<rparr>
     \<in> set (sandboxCalls (workflowOperatorAll opts0 sandbox0 pipeline0
      [\<lparr> runId = ''r1'', jobs = [startWorkflow start0, removeFromCache],
          isReplaying = False \<rparr>])) \<and>
   removeFromCache \<notin> set (jobs
      \<lparr> runId = ''r1'', jobs = [startWorkflow start0], isReplaying = False \<rparr>) \<and>
   handlerThrows (startWorkflow start0) \<noteq>
      Some (IllegalStateError ''removeFromCache activation job should not reach workflow'')"
proof -
  have e: "sandboxCalls pipeline0 = []"
    by (simp add: pipeline0_def)
  have m: "Activate workflow0
      \<lparr> runId = ''r1'', jobs = [startWorkflow start0], isReplaying = False \<rparr>
     \<in> set (sandboxCalls (workflowOperatorAll opts0 sandbox0 pipeline0
      [\<lparr> runId = ''r1'', jobs = [startWorkflow start0, removeFromCache],
          isReplaying = False \<rparr>]))"
    unfolding evict_mid_run by simp
  from C9_no_removeFromCache_reaches_activate [OF e m] e m show ?thesis
    by simp
qed

section \<open>The feedback channel of workflow completions\<close>

text \<open>
  \<^verbatim>\<open>takeUntilState(s)\<close> is \<^verbatim>\<open>takeUntil\<close> with the notifier "the state subject publishes
  \<open>s\<close>": it lets the source's values through until the notifier emits, and then
  completes. A timeline lists, in the order they happen from the subscription on, what
  the state subject publishes (first of all the state at subscription, which a behaviour
  subject replays) and what the source emits.
\<close>

datatype 'a timed = Published State | Next 'a

fun takeUntilState :: "State \<Rightarrow> 'a timed list \<Rightarrow> 'a list" where
  "takeUntilState s [] = []"
| "takeUntilState s (Published s' # evs) = (if s' = s then [] else takeUntilState s evs)"
| "takeUntilState s (Next x # evs) = x # takeUntilState s evs"

fun nexts :: "'a timed list \<Rightarrow> 'a list" where
  "nexts [] = []"
| "nexts (Published s # evs) = nexts evs"
| "nexts (Next x # evs) = x # nexts evs"

text \<open>
  \<^verbatim>\<open>workflow$\<close> merges the poll loop with
  \<^verbatim>\<open>workflowCompletionFeedbackSubject.pipe(this.takeUntilState('DRAINING'))\<close>.
\<close>

definition feedbackChannel :: "WFActivation timed list \<Rightarrow> WFActivation list" where
  "feedbackChannel timeline = takeUntilState DRAINING timeline"

definition activation0 :: WFActivation where
  "activation0 = \<lparr> runId = ''r1'', jobs = [startWorkflow start0], isReplaying = False \<rparr>"

lemma takeUntilState_before:
  "Published s \<notin> set pre \<Longrightarrow> takeUntilState s (pre @ Published s # post) = nexts pre"
proof (induction pre)
  case Nil
  show ?case by simp
next
  case (Cons e pre)
  then show ?case by (cases e) auto
qed

lemma takeUntilState_open:
  "Published s \<notin> set pre \<Longrightarrow> takeUntilState s pre = nexts pre"
proof (induction pre)
  case Nil
  show ?case by simp
next
  case (Cons e pre)
  then show ?case by (cases e) auto
qed

lemma workflowComplete_WorkflowError:
  "bridge c = Some (WorkflowError r) \<Longrightarrow>
   workflowComplete bridge c = Inr (Some (evictionActivation r))"
  by (simp add: workflowComplete_def)

lemma workflowComplete_other:
  "bridge c = Some err \<Longrightarrow> \<forall>r. err \<noteq> WorkflowError r \<Longrightarrow> workflowComplete bridge c = Inl err"
  by (cases err) (simp_all add: workflowComplete_def)

lemma workflowProcess_emitted:
  "snd (workflowOperator opts sb p a) = Some c \<Longrightarrow>
   workflowProcess opts sb bridge p a =
     (case workflowComplete bridge c of
        Inl err \<Rightarrow>
          (Some err,
           (fst (workflowOperator opts sb p a))
             \<lparr> pworker := runError err (pworker (fst (workflowOperator opts sb p a))) \<rparr>,
           None)
      | Inr feedback \<Rightarrow> (None, fst (workflowOperator opts sb p a), feedback))"
  by (cases "workflowOperator opts sb p a") (simp add: workflowProcess_def split: sum.splits)

lemma workflowProcess_silent:
  "snd (workflowOperator opts sb p a) = None \<Longrightarrow>
   workflowProcess opts sb bridge p a = (None, fst (workflowOperator opts sb p a), None)"
  by (cases "workflowOperator opts sb p a") (simp add: workflowProcess_def)

lemma first_activation_completion:
  "snd (workflowOperator opts0 sandbox0 pipeline0 activation0) = Some (Encoded [1])"
  by (simp add: workflowOperator_def workflowStep_def processActivation_def
      activateWorkflow_def isStartWorkflow_def groupState_def Let_def
      opts0_def sandbox0_def pipeline0_def start0_def activation0_def)

text \<open>
  C3, as the code has it. When the bridge rejects a completion with a \<open>WorkflowError\<close>
  for run \<open>r\<close>, nothing reaches \<^verbatim>\<open>run\<close> and the activation with the one job
  \<open>removeFromCache\<close> for \<open>r\<close> is put on the feedback subject. Any other error of
  \<^verbatim>\<open>completeWorkflowActivation\<close> is thrown on and the worker becomes \<open>FAILED\<close>. The
  feedback channel lets through everything put on the subject before the state subject
  publishes \<open>DRAINING\<close>, and nothing from then on: it is closed when the worker enters
  \<open>DRAINING\<close>.
\<close>

theorem C3_completion_feedback:
  "(bridge c = Some (WorkflowError r) \<longrightarrow>
      workflowComplete bridge c = Inr (Some (evictionActivation r)) \<and>
      (snd (workflowOperator opts sb p a) = Some c \<longrightarrow>
         workflowProcess opts sb bridge p a =
           (None, fst (workflowOperator opts sb p a), Some (evictionActivation r)))) \<and>
   (bridge c = Some err \<and> (\<forall>r'. err \<noteq> WorkflowError r') \<longrightarrow>
      workflowComplete bridge c = Inl err \<and>
      (snd (workflowOperator opts sb p a) = Some c \<longrightarrow>
         fst (workflowProcess opts sb bridge p a) = Some err \<and>
         state (pworker (fst (snd (workflowProcess opts sb bridge p a)))) = FAILED)) \<and>
   (Published DRAINING \<notin> set pre \<longrightarrow>
      feedbackChannel pre = nexts pre \<and>
      feedbackChannel (pre @ Published DRAINING # post) = nexts pre)"
proof (intro conjI impI)
  assume b: "bridge c = Some (WorkflowError r)"
  then show "workflowComplete bridge c = Inr (Some (evictionActivation r))"
    by (rule workflowComplete_WorkflowError)
  assume "snd (workflowOperator opts sb p a) = Some c"
  with b show "workflowProcess opts sb bridge p a =
      (None, fst (workflowOperator opts sb p a), Some (evictionActivation r))"
    by (simp add: workflowProcess_emitted workflowComplete_WorkflowError)
next
  assume b: "bridge c = Some err \<and> (\<forall>r'. err \<noteq> WorkflowError r')"
  then show l: "workflowComplete bridge c = Inl err"
    by (simp add: workflowComplete_other)
  assume o: "snd (workflowOperator opts sb p a) = Some c"
  with l show "fst (workflowProcess opts sb bridge p a) = Some err"
    by (simp add: workflowProcess_emitted)
  from l o show "state (pworker (fst (snd (workflowProcess opts sb bridge p a)))) = FAILED"
    by (simp add: workflowProcess_emitted runError_def)
next
  assume d: "Published DRAINING \<notin> set pre"
  then show "feedbackChannel pre = nexts pre"
    by (simp add: feedbackChannel_def takeUntilState_open)
  from d show "feedbackChannel (pre @ Published DRAINING # post) = nexts pre"
    by (simp add: feedbackChannel_def takeUntilState_before)
qed

theorem C3_completion_feedback_witness:
  "workflowProcess opts0 sandbox0 (\<lambda>c. Some (WorkflowError ''r1'')) pipeline0 activation0 =
     (None, fst (workflowOperator opts0 sandbox0 pipeline0 activation0),
      Some (evictionActivation ''r1'')) \<and>
   fst (workflowProcess opts0 sandbox0 (\<lambda>c. Some (OtherError ''rejected'')) pipeline0 activation0) =
     Some (OtherError ''rejected'') \<and>
   state (pworker (fst (snd (workflowProcess opts0 sandbox0 (\<lambda>c. Some (OtherError ''rejected''))
     pipeline0 activation0)))) = FAILED \<and>
   feedbackChannel ([Published RUNNING, Next (evictionActivation ''r1''), Published STOPPING]
       @ Published DRAINING # [Next (evictionActivation ''r2'')]) =
     [evictionActivation ''r1'']"
  using C3_completion_feedback [where bridge = "\<lambda>c. Some (WorkflowError ''r1'')"
          and c = "Encoded [1]" and r = "''r1''" and opts = opts0 and sb = sandbox0
          and p = pipeline0 and a = activation0 and err = "WorkflowError ''r1''"
          and pre = "[Published RUNNING, Next (evictionActivation ''r1''), Published STOPPING]"
          and post = "[Next (evictionActivation ''r2'')]"]
        C3_completion_feedback [where bridge = "\<lambda>c. Some (OtherError ''rejected'')"
          and c = "Encoded [1]" and r = "''r1''" and opts = opts0 and sb = sandbox0
          and p = pipeline0 and a = activation0 and err = "OtherError ''rejected''"
          and pre = "[]" and post = "[]"]
  by (simp add: first_activation_completion)

text \<open>
  C3 as the specification states it fails: an eviction put on the feedback subject while
  the worker is in \<open>DRAINING\<close>, before it has left that state, does not reach the
  workflow pipeline.
\<close>

theorem C3_counterexample:
  "feedbackChannel
     [Published RUNNING, Published STOPPING, Published DRAINING, Next (evictionActivation ''r1'')]
   = []"
  by (simp add: feedbackChannel_def)

section \<open>A poll that fails with a workflow error\<close>

lemma status_simps [simp]:
  "status (stopped s) = s" "status (emit v r) = status r" "status (issue r) = status r"
  by (simp_all add: stopped_def emit_def issue_def)

lemma workflowPollFn_no_WorkflowError: "workflowPollFn x \<noteq> Inl (WorkflowError r)"
  by (cases x rule: workflowPollFn.cases) simp_all

lemma workflowPoll_never_WorkflowError:
  "pollFn = workflowPollFn \<Longrightarrow> status (pollLoop pollFn m st evs) \<noteq> Errored (WorkflowError r)"
proof (induction pollFn m st evs rule: pollLoop.induct)
  case (1 pollFn st evs)
  then show ?case by (cases "pollGate st") simp_all
next
  case (4 pollFn st x evs)
  then show ?case
    using workflowPollFn_no_WorkflowError [of x r]
    by (auto split: sum.splits)
qed simp_all

lemma evict_through_operator:
  "workflowOperator opts sb p (evictionActivation r) =
     (\<lparr> pworker = (logMsg Debug ''Disposing workflow'' (pworker p))
           \<lparr> numRunningWorkflowInstances := numRunningWorkflowInstances (pworker p) - 1 \<rparr>,
         groups = closeGroup (groups p) r,
         sandboxCalls = sandboxCalls p @ disposeIfAny (groupState (groups p) r) \<rparr>, None)"
  by (simp add: workflowOperator_def workflowStep_def processActivation_def
      evictionActivation_def Let_def logMsg_def)

text \<open>
  C10. When \<^verbatim>\<open>pollWorkflowActivation\<close> rejects with a \<open>WorkflowError\<close> for run \<open>r\<close>, the
  poll function returns the activation with the one job \<open>removeFromCache\<close> for \<open>r\<close>; the
  loop emits it and goes on exactly as for an activation the bridge had returned, and
  the workflow poll loop never ends with a \<open>WorkflowError\<close>. The workflow pipeline
  processes that activation as an eviction: the run's group is closed, no completion is
  sent, nothing reaches \<^verbatim>\<open>run\<close> and the worker's state is unchanged.
\<close>

theorem C10_poll_WorkflowError_becomes_eviction:
  "workflowPollFn (Inl (WorkflowError r)) = Inr (evictionActivation r) \<and>
   pollLoop workflowPollFn InFlight st (PollSettled (Inl (WorkflowError r)) # evs) =
     emit (evictionActivation r) (pollLoop workflowPollFn Inspect st evs) \<and>
   pollLoop workflowPollFn InFlight st (PollSettled (Inl (WorkflowError r)) # evs) =
     pollLoop workflowPollFn InFlight st (PollSettled (Inr (evictionActivation r)) # evs) \<and>
   status (workflowPoll st' evs') \<noteq> Errored (WorkflowError r') \<and>
   workflowProcess opts sb bridge p (evictionActivation r) =
     (None, fst (workflowOperator opts sb p (evictionActivation r)), None) \<and>
   state (pworker (fst (workflowOperator opts sb p (evictionActivation r)))) = state (pworker p) \<and>
   groups (fst (workflowOperator opts sb p (evictionActivation r))) r = None"
proof (intro conjI)
  show "status (workflowPoll st' evs') \<noteq> Errored (WorkflowError r')"
    unfolding workflowPoll_def by (rule workflowPoll_never_WorkflowError) simp
  show "workflowProcess opts sb bridge p (evictionActivation r) =
     (None, fst (workflowOperator opts sb p (evictionActivation r)), None)"
    by (rule workflowProcess_silent) (simp add: evict_through_operator)
qed (simp_all add: evict_through_operator closeGroup_def logMsg_def)

theorem C10_poll_WorkflowError_becomes_eviction_witness:
  "workflowPoll RUNNING
     [PollSettled (Inl (WorkflowError ''r1'')), PollSettled (Inl ShutdownError)] =
     \<lparr> emitted = [evictionActivation ''r1''], polls = 2, status = Completed \<rparr> \<and>
   fst (workflowProcess opts0 sandbox0 acceptAll pipeline0 (evictionActivation ''r1'')) = None \<and>
   state (pworker (fst (workflowOperator opts0 sandbox0 pipeline0 (evictionActivation ''r1''))))
     = RUNNING"
  using C10_poll_WorkflowError_becomes_eviction [of "''r1''" RUNNING
      "[PollSettled (Inl ShutdownError)]" RUNNING "[]" "''r1''" opts0 sandbox0 acceptAll
      pipeline0]
  by (simp add: workflowPoll_def stopped_def emit_def issue_def pipeline0_def run_def
      newWorker_def)

section \<open>The activity operator\<close>

text \<open>
  An activity task carries its token, the activity's id and one of two variants. Of the
  start message the model keeps what the worker reads before it runs the activity.
  Payloads and decoded values are opaque. Of the start message's fields that
  \<^verbatim>\<open>extractActivityInfo\<close> copies without reading them (the workflow execution, type
  and namespace) none is kept; the three timestamps, which it converts, are, and each
  may be absent from the message. Of an \<^verbatim>\<open>Activity\<close> the model keeps its info, the
  function it runs and whether \<^verbatim>\<open>cancel()\<close> was called on it; what \<^verbatim>\<open>run\<close> resolves
  to is given with the event that settles it.
\<close>

type_synonym payload = string
type_synonym jsvalue = string

text \<open>
  A registered module is the list of its own entries, as \<^verbatim>\<open>Object.entries\<close> gives them;
  an entry is a function or something else. The modules are the plain objects that
  \<^verbatim>\<open>resolveActivities\<close> builds with \<^verbatim>\<open>Object.fromEntries\<close>, so \<^verbatim>\<open>module[fnName]\<close> finds
  an own entry first and then what the object inherits from \<^verbatim>\<open>Object.prototype\<close>, whose
  function-valued properties are listed. The function of an activity is an exported
  function of a module or one of those.
\<close>

datatype export = Function nat | NotFunction

type_synonym module = "(string \<times> export) list"

datatype activity_fn = Exported nat | ObjectPrototype string

datatype property = FunctionValue activity_fn | OtherValue | UndefinedValue

definition objectPrototypeFunctions :: "string list" where
  "objectPrototypeFunctions =
     [''constructor'', ''__defineGetter__'', ''__defineSetter__'', ''hasOwnProperty'',
      ''__lookupGetter__'', ''__lookupSetter__'', ''isPrototypeOf'', ''propertyIsEnumerable'',
      ''toString'', ''valueOf'', ''toLocaleString'']"

definition getProperty :: "module \<Rightarrow> string \<Rightarrow> property" where
  "getProperty m k =
     (case map_of m k of
        Some (Function f) \<Rightarrow> FunctionValue (Exported f)
      | Some NotFunction \<Rightarrow> OtherValue
      | None \<Rightarrow>
          if k \<in> set objectPrototypeFunctions then FunctionValue (ObjectPrototype k)
          else UndefinedValue)"

record Timestamp =
  seconds :: int
  nanos :: int

record Start =
  activityType :: string
  input :: "payload list"
  heartbeatDetails :: "payload list"
  headerFields :: "(string \<times> payload) list"
  attempt :: nat
  scheduledTime :: "Timestamp option"
  startToCloseTimeout :: "Timestamp option"
  scheduleToCloseTimeout :: "Timestamp option"

datatype task_variant = start Start | cancel

record ActivityTask =
  taskToken :: string
  activityId :: string
  variant :: "task_variant option"

record ActivityTaskWithContext =
  task :: ActivityTask
  formattedTaskToken :: string

record ActivityInfo =
  infoTaskToken :: string
  infoActivityId :: string
  infoActivityType :: "string \<times> string"
  infoAttempt :: nat
  infoIsLocal :: bool
  infoHeartbeatDetails :: jsvalue
  infoActivityNamespace :: string
  scheduledTimestampMs :: int
  startToCloseTimeoutMs :: int
  scheduleToCloseTimeoutMs :: int

record ActivityExecuteInput =
  args :: "jsvalue list"
  headers :: "(string \<times> payload) list"

record Activity =
  activityInfo :: ActivityInfo
  fn :: activity_fn
  cancelRequested :: bool

datatype ActivityResult = completed jsvalue | failed Failure | cancelled

datatype ActivityOutput = result ActivityResult | run_activity Activity ActivityExecuteInput | ignore

text \<open>
  What the step uses of its surroundings: \<^verbatim>\<open>JSON.parse\<close> followed by the destructuring
  \<^verbatim>\<open>[path, fnName]\<close>, which return the pair or throw; the data converter on the
  heartbeat details and on the arguments, where \<^verbatim>\<open>arrayFromPayloads\<close> fails with the
  message of the error it throws; the registered activities; the bridge's namespace.
\<close>

record ActivityEnv =
  parseActivityType :: "string \<Rightarrow> error + string \<times> string"
  fromPayloads :: "nat \<Rightarrow> payload list \<Rightarrow> error + jsvalue"
  arrayFromPayloads :: "payload list \<Rightarrow> string + jsvalue list"
  resolvedActivities :: "string \<rightharpoonup> module"
  activityNamespace :: string

text \<open>
  Modelled from the spec: \<^verbatim>\<open>tsToMs\<close> of the repository's common package, which is not
  among the sources. It decodes a timestamp to milliseconds, and it throws an error
  when it is given no timestamp: the worker trusts the bridge to supply the fields and
  checks none of them.
\<close>

definition tsToMs :: "Timestamp option \<Rightarrow> error + int" where
  "tsToMs ts =
     (case ts of
        None \<Rightarrow> Inl (OtherError ''Expected timestamp, got undefined'')
      | Some t \<Rightarrow> Inr (seconds t * 1000 + nanos t div 1000000))"

text \<open>
  \<^verbatim>\<open>extractActivityInfo\<close>: the activity type is parsed first, then the fields of the
  info are computed in the order they are written, and the first call that throws ends
  it.
\<close>

definition extractActivityInfo ::
  "ActivityEnv \<Rightarrow> ActivityTask \<Rightarrow> Start \<Rightarrow> bool \<Rightarrow> error + ActivityInfo"
where
  "extractActivityInfo env t st isLocal =
     (case parseActivityType env (activityType st) of
        Inl err \<Rightarrow> Inl err
      | Inr ty \<Rightarrow>
         (case fromPayloads env 0 (heartbeatDetails st) of
            Inl err \<Rightarrow> Inl err
          | Inr details \<Rightarrow>
             (case tsToMs (scheduledTime st) of
                Inl err \<Rightarrow> Inl err
              | Inr scheduled \<Rightarrow>
                 (case tsToMs (startToCloseTimeout st) of
                    Inl err \<Rightarrow> Inl err
                  | Inr startToClose \<Rightarrow>
                     (case tsToMs (scheduleToCloseTimeout st) of
                        Inl err \<Rightarrow> Inl err
                      | Inr scheduleToClose \<Rightarrow>
                          Inr \<lparr> infoTaskToken = taskToken t, infoActivityId = activityId t,
                                infoActivityType = ty, infoAttempt = attempt st,
                                infoIsLocal = isLocal, infoHeartbeatDetails = details,
                                infoActivityNamespace = activityNamespace env,
                                scheduledTimestampMs = scheduled,
                                startToCloseTimeoutMs = startToClose,
                                scheduleToCloseTimeoutMs = scheduleToClose \<rparr>)))))"

text \<open>
  The step of \<^verbatim>\<open>activityOperator\<close>, the function given to \<^verbatim>\<open>mergeMapWithState\<close>: from
  the group's state and a task to the new state and an output, which is a result to
  pass on, an activity to run, or nothing. It returns the worker as well (the log, and
  the gauge of in-flight activities, which goes up where an activity is created) and
  the attributes set on the step's span.
\<close>

record step_result =
  stepWorker :: Worker
  stepState :: "Activity option"
  stepTaskToken :: string
  stepOutput :: ActivityOutput
  spanAttributes :: "(string \<times> bool) list"

definition activityStep ::
  "ActivityEnv \<Rightarrow> Worker \<Rightarrow> Activity option \<Rightarrow> ActivityTaskWithContext \<Rightarrow> error + step_result"
where
  "activityStep env w activity ctx =
     (case variant (task ctx) of
        None \<Rightarrow> Inl (TypeError ''Got an activity task without a \"variant\" attribute'')
      | Some (start st) \<Rightarrow>
          if activity \<noteq> None
          then Inl (IllegalStateError
                 (''Got start event for an already running activity: '' @ formattedTaskToken ctx))
          else
           (case extractActivityInfo env (task ctx) st False of
              Inl err \<Rightarrow> Inl err
            | Inr i \<Rightarrow>
               (let path = fst (infoActivityType i); fnName = snd (infoActivityType i)
                in case resolvedActivities env path of
                     None \<Rightarrow>
                       Inr \<lparr> stepWorker = w, stepState = activity,
                             stepTaskToken = taskToken (task ctx),
                             stepOutput = result (failed (Message
                               (''Activity module not found: '' @ path))),
                             spanAttributes = [] \<rparr>
                   | Some m \<Rightarrow>
                      (case getProperty m fnName of
                         FunctionValue f \<Rightarrow>
                          (case arrayFromPayloads env (input st) of
                             Inl msg \<Rightarrow>
                               Inr \<lparr> stepWorker = w, stepState = activity,
                                     stepTaskToken = taskToken (task ctx),
                                     stepOutput = result (failed (Message
                                       (''Failed to parse activity args for activity '' @ fnName
                                        @ '': '' @ msg))),
                                     spanAttributes = [] \<rparr>
                           | Inr as \<Rightarrow>
                              (let w1 = logMsg Debug ''Starting activity'' w;
                                   a = \<lparr> activityInfo = i, fn = f, cancelRequested = False \<rparr>;
                                   w2 = w1\<lparr> numInFlightActivities :=
                                              numInFlightActivities w1 + 1 \<rparr>
                               in Inr \<lparr> stepWorker = w2, stepState = Some a,
                                        stepTaskToken = taskToken (task ctx),
                                        stepOutput = run_activity a
                                          \<lparr> args = as, headers = headerFields st \<rparr>,
                                        spanAttributes = [] \<rparr>))
                       | _ \<Rightarrow>
                           Inr \<lparr> stepWorker = w, stepState = activity,
                                 stepTaskToken = taskToken (task ctx),
                                 stepOutput = result (failed (Message
                                   (''Activity function '' @ fnName @ '' not found in: '' @ path))),
                                 spanAttributes = [] \<rparr>)))
      | Some cancel \<Rightarrow>
         (case activity of
            None \<Rightarrow>
              Inr \<lparr> stepWorker = logMsg Error ''Tried to cancel a non-existing activity'' w,
                    stepState = None, stepTaskToken = taskToken (task ctx),
                    stepOutput = ignore, spanAttributes = [(''found'', False)] \<rparr>
          | Some a \<Rightarrow>
              Inr \<lparr> stepWorker = logMsg Debug ''Cancelling activity'' w,
                    stepState = Some (a\<lparr> cancelRequested := True \<rparr>),
                    stepTaskToken = taskToken (task ctx),
                    stepOutput = ignore, spanAttributes = [(''found'', True)] \<rparr>))"

text \<open>
  The rest of the group's pipe. An ignored output ends there. A result becomes a
  completion. An activity to run is run, and its result becomes a completion when the
  run settles, which is a later event: tasks for the same token (a cancel) are processed
  in between. Every completion that is emitted closes the group and takes one off the
  gauge of in-flight activities. The pipeline holds the worker, the open groups, the
  activities that are running, the completions emitted so far and the span attributes
  set so far.
\<close>

record ActivityTaskCompletion =
  completionTaskToken :: string
  completionResult :: ActivityResult

record ActivityPipeline =
  aworker :: Worker
  agroups :: "string \<rightharpoonup> Activity option"
  running :: "string \<rightharpoonup> string \<times> Activity \<times> ActivityExecuteInput"
  completions :: "ActivityTaskCompletion list"
  spans :: "(string \<times> bool) list"

datatype activity_event =
    TaskPolled ActivityTaskWithContext
  | RunSettled string "error + ActivityResult"

definition emitCompletion ::
  "string \<Rightarrow> ActivityTaskCompletion \<Rightarrow> ActivityPipeline \<Rightarrow> ActivityPipeline"
where
  "emitCompletion k c p =
     p\<lparr> completions := completions p @ [c],
        agroups := closeGroup (agroups p) k,
        aworker := (aworker p)\<lparr> numInFlightActivities :=
                                  numInFlightActivities (aworker p) - 1 \<rparr> \<rparr>"

fun activityOperator ::
  "ActivityEnv \<Rightarrow> ActivityPipeline \<Rightarrow> activity_event \<Rightarrow> error + ActivityPipeline"
where
  "activityOperator env p (TaskPolled ctx) =
     (let k = formattedTaskToken ctx
      in case activityStep env (aworker p) (groupState (agroups p) k) ctx of
           Inl err \<Rightarrow> Inl err
         | Inr r \<Rightarrow>
            (let p1 = p\<lparr> aworker := stepWorker r,
                         agroups := (agroups p)(k \<mapsto> stepState r),
                         spans := spans p @ spanAttributes r \<rparr>
             in case stepOutput r of
                  ignore \<Rightarrow> Inr p1
                | result res \<Rightarrow>
                    Inr (emitCompletion k
                      \<lparr> completionTaskToken = stepTaskToken r, completionResult = res \<rparr> p1)
                | run_activity a i \<Rightarrow>
                    Inr (p1\<lparr> running := (running p1)(k \<mapsto> (stepTaskToken r, a, i)) \<rparr>)))"
| "activityOperator env p (RunSettled k outcome) =
     (case running p k of
        None \<Rightarrow> Inr p
      | Some (token, a, i) \<Rightarrow>
         (case outcome of
            Inl err \<Rightarrow> Inl err
          | Inr res \<Rightarrow>
              Inr (emitCompletion k
                \<lparr> completionTaskToken = token, completionResult = res \<rparr>
                (p\<lparr> aworker := logMsg Debug ''Activity resolved'' (aworker p),
                    running := (running p)(k := None) \<rparr>))))"

text \<open>
  A worker with one registered module, \<^verbatim>\<open>@activities/greet\<close>, which exports the
  function \<^verbatim>\<open>hello\<close> and a value that is not a function.
\<close>

definition activityEnv0 :: ActivityEnv where
  "activityEnv0 =
     \<lparr> parseActivityType =
         (\<lambda>s. if s = ''[\"bad\",\"f\"]'' then Inr (''bad'', ''f'')
              else if s = ''[\"@activities/greet\",\"missing\"]''
              then Inr (''@activities/greet'', ''missing'')
              else if s = ''[\"@activities/greet\",\"hello\"]''
              then Inr (''@activities/greet'', ''hello'')
              else if s = ''[\"@activities/greet\",\"toString\"]''
              then Inr (''@activities/greet'', ''toString'')
              else Inl (SyntaxError ''Unexpected token'')),
       fromPayloads = (\<lambda>n ps. Inr ''undefined''),
       arrayFromPayloads = (\<lambda>ps. Inr ps),
       resolvedActivities =
         [''@activities/greet'' \<mapsto> [(''hello'', Function 0), (''version'', NotFunction)]],
       activityNamespace = ''default'' \<rparr>"

definition activityPipeline0 :: ActivityPipeline where
  "activityPipeline0 =
     \<lparr> aworker = snd (run newWorker), agroups = Map.empty, running = Map.empty,
       completions = [], spans = [] \<rparr>"

text \<open>
  A start message with every field the bridge supplies: no arguments, no heartbeat
  details, no headers, first attempt, and the three timestamps.
\<close>

definition startMessage :: "string \<Rightarrow> Start" where
  "startMessage ty =
     \<lparr> activityType = ty, input = [], heartbeatDetails = [], headerFields = [], attempt = 1,
       scheduledTime = Some \<lparr> seconds = 1627000000, nanos = 0 \<rparr>,
       startToCloseTimeout = Some \<lparr> seconds = 60, nanos = 0 \<rparr>,
       scheduleToCloseTimeout = Some \<lparr> seconds = 600, nanos = 0 \<rparr> \<rparr>"

definition startTask :: "string \<Rightarrow> string \<Rightarrow> ActivityTaskWithContext" where
  "startTask token ty =
     \<lparr> task = \<lparr> taskToken = token, activityId = ''1'',
                  variant = Some (start (startMessage ty)) \<rparr>,
       formattedTaskToken = token \<rparr>"

definition infoOf :: "string \<Rightarrow> string \<times> string \<Rightarrow> ActivityInfo" where
  "infoOf token ty =
     \<lparr> infoTaskToken = token, infoActivityId = ''1'', infoActivityType = ty, infoAttempt = 1,
       infoIsLocal = False, infoHeartbeatDetails = ''undefined'',
       infoActivityNamespace = ''default'', scheduledTimestampMs = 1627000000000,
       startToCloseTimeoutMs = 60000, scheduleToCloseTimeoutMs = 600000 \<rparr>"

definition cancelTask :: "string \<Rightarrow> ActivityTaskWithContext" where
  "cancelTask token =
     \<lparr> task = \<lparr> taskToken = token, activityId = ''1'', variant = Some cancel \<rparr>,
       formattedTaskToken = token \<rparr>"

lemma step_module_not_found:
  assumes "variant (task ctx) = Some (start st)"
    and "extractActivityInfo env (task ctx) st False = Inr i"
    and "resolvedActivities env (fst (infoActivityType i)) = None"
  shows "activityStep env w None ctx =
     Inr \<lparr> stepWorker = w, stepState = None, stepTaskToken = taskToken (task ctx),
           stepOutput = result (failed (Message
             (''Activity module not found: '' @ fst (infoActivityType i)))),
           spanAttributes = [] \<rparr>"
  using assms by (simp add: activityStep_def)

lemma step_function_not_found:
  assumes "variant (task ctx) = Some (start st)"
    and "extractActivityInfo env (task ctx) st False = Inr i"
    and "resolvedActivities env (fst (infoActivityType i)) = Some m"
    and "\<forall>f. getProperty m (snd (infoActivityType i)) \<noteq> FunctionValue f"
  shows "activityStep env w None ctx =
     Inr \<lparr> stepWorker = w, stepState = None, stepTaskToken = taskToken (task ctx),
           stepOutput = result (failed (Message
             (''Activity function '' @ snd (infoActivityType i) @ '' not found in: ''
              @ fst (infoActivityType i)))),
           spanAttributes = [] \<rparr>"
  using assms by (simp add: activityStep_def Let_def split: property.splits)

lemma extractActivityInfo_absent_timestamp:
  assumes "parseActivityType env (activityType st) = Inr ty"
    and "fromPayloads env 0 (heartbeatDetails st) = Inr d"
    and "scheduledTime st = None \<or> startToCloseTimeout st = None \<or>
         scheduleToCloseTimeout st = None"
  shows "extractActivityInfo env t st isLocal =
     Inl (OtherError ''Expected timestamp, got undefined'')"
  using assms by (auto simp: extractActivityInfo_def tsToMs_def split: option.splits)

lemma extract_start_message:
  "parseActivityType activityEnv0 ty = Inr pair \<Longrightarrow>
   extractActivityInfo activityEnv0 (task (startTask token ty)) (startMessage ty) False =
     Inr (infoOf token pair)"
  by (simp add: extractActivityInfo_def tsToMs_def startTask_def startMessage_def infoOf_def
      activityEnv0_def)

text \<open>
  C6 at a start task that names \<^verbatim>\<open>toString\<close> in the registered module
  \<^verbatim>\<open>@activities/greet\<close>, which exports the function \<^verbatim>\<open>hello\<close> and no \<^verbatim>\<open>toString\<close>. The
  lookup \<^verbatim>\<open>module[fnName]\<close> finds the function the module object inherits, the test
  \<^verbatim>\<open>fn instanceof Function\<close> passes, and the step creates an activity for it: the gauge
  of in-flight activities goes up, the activity is kept as the group's handle and is
  set running, and no completion is emitted.
\<close>

theorem C6_inherited_function_is_run:
  "map_of [(''hello'', Function 0), (''version'', NotFunction)] ''toString'' = None \<and>
   getProperty [(''hello'', Function 0), (''version'', NotFunction)] ''toString'' =
     FunctionValue (ObjectPrototype ''toString'') \<and>
   activityOperator activityEnv0 activityPipeline0
       (TaskPolled (startTask ''T'' ''[\"@activities/greet\",\"toString\"]'')) =
     Inr \<lparr> aworker = (logMsg Debug ''Starting activity'' (snd (run newWorker)))
                \<lparr> numInFlightActivities := 1 \<rparr>,
           agroups =
             [''T'' \<mapsto> Some \<lparr> activityInfo = infoOf ''T'' (''@activities/greet'', ''toString''),
                               fn = ObjectPrototype ''toString'', cancelRequested = False \<rparr>],
           running =
             [''T'' \<mapsto> (''T'',
                \<lparr> activityInfo = infoOf ''T'' (''@activities/greet'', ''toString''),
                  fn = ObjectPrototype ''toString'', cancelRequested = False \<rparr>,
                \<lparr> args = [], headers = [] \<rparr>)],
           completions = [], spans = [] \<rparr>"
proof (intro conjI)
  have e: "extractActivityInfo activityEnv0
      (task (startTask ''T'' ''[\"@activities/greet\",\"toString\"]''))
      (startMessage ''[\"@activities/greet\",\"toString\"]'') False =
      Inr (infoOf ''T'' (''@activities/greet'', ''toString''))"
    by (rule extract_start_message) (simp add: activityEnv0_def)
  have v: "variant (task (startTask ''T'' ''[\"@activities/greet\",\"toString\"]'')) =
      Some (start (startMessage ''[\"@activities/greet\",\"toString\"]''))"
    by (simp add: startTask_def)
  have g: "getProperty [(''hello'', Function 0), (''version'', NotFunction)] ''toString'' =
     FunctionValue (ObjectPrototype ''toString'')"
    by (simp add: getProperty_def objectPrototypeFunctions_def)
  show "getProperty [(''hello'', Function 0), (''version'', NotFunction)] ''toString'' =
     FunctionValue (ObjectPrototype ''toString'')"
    by (rule g)
  have s: "activityStep activityEnv0 (snd (run newWorker)) None
      (startTask ''T'' ''[\"@activities/greet\",\"toString\"]'') =
     Inr \<lparr> stepWorker = (logMsg Debug ''Starting activity'' (snd (run newWorker)))
                \<lparr> numInFlightActivities := 1 \<rparr>,
           stepState = Some \<lparr> activityInfo = infoOf ''T'' (''@activities/greet'', ''toString''),
                               fn = ObjectPrototype ''toString'', cancelRequested = False \<rparr>,
           stepTaskToken = ''T'',
           stepOutput = run_activity
             \<lparr> activityInfo = infoOf ''T'' (''@activities/greet'', ''toString''),
               fn = ObjectPrototype ''toString'', cancelRequested = False \<rparr>
             \<lparr> args = [], headers = [] \<rparr>,
           spanAttributes = [] \<rparr>"
  proof -
    have r: "resolvedActivities activityEnv0 ''@activities/greet'' =
        Some [(''hello'', Function 0), (''version'', NotFunction)]"
      by (simp add: activityEnv0_def)
    have a: "arrayFromPayloads activityEnv0 [] = Inr []"
      by (simp add: activityEnv0_def)
    have t: "taskToken (task (startTask ''T'' ''[\"@activities/greet\",\"toString\"]'')) = ''T''"
      by (simp add: startTask_def)
    have m: "input (startMessage ''[\"@activities/greet\",\"toString\"]'') = []"
      "headerFields (startMessage ''[\"@activities/greet\",\"toString\"]'') = []"
      by (simp_all add: startMessage_def)
    have n: "numInFlightActivities (logMsg Debug ''Starting activity'' (snd (run newWorker))) = 0"
      by (simp add: logMsg_def run_def newWorker_def)
    show ?thesis
      unfolding activityStep_def v
      by (simp add: e g r a t m n infoOf_def Let_def)
  qed
  show "activityOperator activityEnv0 activityPipeline0
       (TaskPolled (startTask ''T'' ''[\"@activities/greet\",\"toString\"]'')) =
     Inr \<lparr> aworker = (logMsg Debug ''Starting activity'' (snd (run newWorker)))
                \<lparr> numInFlightActivities := 1 \<rparr>,
           agroups =
             [''T'' \<mapsto> Some \<lparr> activityInfo = infoOf ''T'' (''@activities/greet'', ''toString''),
                               fn = ObjectPrototype ''toString'', cancelRequested = False \<rparr>],
           running =
             [''T'' \<mapsto> (''T'',
                \<lparr> activityInfo = infoOf ''T'' (''@activities/greet'', ''toString''),
                  fn = ObjectPrototype ''toString'', cancelRequested = False \<rparr>,
                \<lparr> args = [], headers = [] \<rparr>)],
           completions = [], spans = [] \<rparr>"
  proof -
    have k: "formattedTaskToken (startTask ''T'' ''[\"@activities/greet\",\"toString\"]'') = ''T''"
      by (simp add: startTask_def)
    show ?thesis
      by (simp add: activityPipeline0_def groupState_def s k Let_def)
  qed
qed simp

text \<open>
  C7. A cancel task arrives for a token with no activity handle. The operator emits no
  completion, leaves the gauge of in-flight activities as it was, keeps the token's
  group open (with no handle), logs that it tried to cancel a non-existing activity and
  sets the span attribute \<^verbatim>\<open>found\<close> to false.
\<close>

theorem C7_cancel_without_handle_is_ignored:
  assumes "variant (task ctx) = Some cancel"
    and "groupState (agroups p) (formattedTaskToken ctx) = None"
  shows "\<exists>p'. activityOperator env p (TaskPolled ctx) = Inr p' \<and>
     completions p' = completions p \<and>
     numInFlightActivities (aworker p') = numInFlightActivities (aworker p) \<and>
     agroups p' (formattedTaskToken ctx) = Some None \<and>
     running p' = running p \<and>
     log (aworker p') = log (aworker p) @ [(Error, ''Tried to cancel a non-existing activity'')] \<and>
     spans p' = spans p @ [(''found'', False)]"
  using assms by (simp add: activityStep_def logMsg_def)

theorem C7_cancel_without_handle_is_ignored_witness:
  "\<exists>p'. activityOperator activityEnv0 activityPipeline0 (TaskPolled (cancelTask ''T2'')) = Inr p' \<and>
     completions p' = [] \<and>
     numInFlightActivities (aworker p') = 0 \<and>
     agroups p' ''T2'' = Some None \<and>
     spans p' = [(''found'', False)]"
proof -
  have a: "variant (task (cancelTask ''T2'')) = Some cancel"
    by (simp add: cancelTask_def)
  have b: "groupState (agroups activityPipeline0) (formattedTaskToken (cancelTask ''T2'')) = None"
    by (simp add: activityPipeline0_def groupState_def)
  from C7_cancel_without_handle_is_ignored [OF a b, of activityEnv0]
  obtain p' where
    "activityOperator activityEnv0 activityPipeline0 (TaskPolled (cancelTask ''T2'')) = Inr p'"
    "completions p' = completions activityPipeline0"
    "numInFlightActivities (aworker p') = numInFlightActivities (aworker activityPipeline0)"
    "agroups p' (formattedTaskToken (cancelTask ''T2'')) = Some None"
    "spans p' = spans activityPipeline0 @ [(''found'', False)]"
    by blast
  then show ?thesis
    by (simp add: cancelTask_def activityPipeline0_def run_def newWorker_def)
qed

text \<open>
  C2 at a start task whose module is not registered. The task carries every field the
  bridge supplies, the three timestamps included, so \<^verbatim>\<open>extractActivityInfo\<close> returns
  the info and the lookup is reached. The gauge of in-flight activities is 0 before the
  task; the step synthesizes the failed result without creating an activity, so nothing
  is added to the gauge, and the emitted completion takes one off: the gauge is -1
  afterwards.
\<close>

theorem C2_activity_gauge_goes_negative:
  "numInFlightActivities (aworker activityPipeline0) = 0 \<and>
   activityOperator activityEnv0 activityPipeline0 (TaskPolled (startTask ''T'' ''[\"bad\",\"f\"]'')) =
     Inr \<lparr> aworker = (snd (run newWorker))\<lparr> numInFlightActivities := - 1 \<rparr>,
           agroups = Map.empty, running = Map.empty,
           completions = [\<lparr> completionTaskToken = ''T'',
              completionResult = failed (Message ''Activity module not found: bad'') \<rparr>],
           spans = [] \<rparr>"
  by (simp add: activityStep_def extractActivityInfo_def activityEnv0_def activityPipeline0_def
      startTask_def startMessage_def tsToMs_def groupState_def closeGroup_def emitCompletion_def
      run_def newWorker_def setState_def logMsg_def Let_def)

section \<open>The bundler's activity stubs\<close>

text \<open>
  \<^verbatim>\<open>JSON.stringify\<close> on a string and on an array of two strings, over bytes: the quote,
  the backslash and the control characters are escaped, everything else is copied.
\<close>

definition backslash :: char where
  "backslash = CHR 0x5C"

definition dquote :: char where
  "dquote = CHR 0x22"

definition hexDigit :: "nat \<Rightarrow> char" where
  "hexDigit n = (if n < 10 then char_of (48 + n) else char_of (87 + n))"

definition quoteJSONChar :: "char \<Rightarrow> string" where
  "quoteJSONChar c =
     (if c = CHR 0x08 then [backslash, CHR ''b'']
      else if c = CHR 0x09 then [backslash, CHR ''t'']
      else if c = CHR 0x0A then [backslash, CHR ''n'']
      else if c = CHR 0x0C then [backslash, CHR ''f'']
      else if c = CHR 0x0D then [backslash, CHR ''r'']
      else if c = dquote then [backslash, dquote]
      else if c = backslash then [backslash, backslash]
      else if (of_char c :: nat) < 0x20
        then [backslash, CHR ''u'', CHR ''0'', CHR ''0'',
              hexDigit (of_char c div 16), hexDigit (of_char c mod 16)]
      else [c])"

definition stringifyString :: "string \<Rightarrow> string" where
  "stringifyString s = dquote # concat (map quoteJSONChar s) @ [dquote]"

definition stringifyPair :: "string \<Rightarrow> string \<Rightarrow> string" where
  "stringifyPair a b = ''['' @ stringifyString a @ '','' @ stringifyString b @ '']''"

text \<open>
  A string literal of the generated module read back: the value it denotes, or nothing
  when the text is not a string literal. The escapes are those JSON writes; a backslash
  before a line break continues the line and adds nothing to the value. A literal that
  JSON writes denotes the string it was written from.
\<close>

definition hexValue :: "char \<Rightarrow> nat option" where
  "hexValue c =
     (let n = (of_char c :: nat)
      in if 48 \<le> n \<and> n \<le> 57 then Some (n - 48)
         else if 97 \<le> n \<and> n \<le> 102 then Some (n - 87)
         else if 65 \<le> n \<and> n \<le> 70 then Some (n - 55)
         else None)"

fun unescape :: "string \<Rightarrow> string option" where
  "unescape [] = None"
| "unescape (c # cs) =
     (if c = dquote then (if cs = [] then Some [] else None)
      else if c = backslash then
        (case cs of
           [] \<Rightarrow> None
         | e # rest \<Rightarrow>
            if e = CHR ''b'' then map_option ((#) (CHR 0x08)) (unescape rest)
            else if e = CHR ''t'' then map_option ((#) (CHR 0x09)) (unescape rest)
            else if e = CHR ''n'' then map_option ((#) (CHR 0x0A)) (unescape rest)
            else if e = CHR ''f'' then map_option ((#) (CHR 0x0C)) (unescape rest)
            else if e = CHR ''r'' then map_option ((#) (CHR 0x0D)) (unescape rest)
            else if e = dquote then map_option ((#) dquote) (unescape rest)
            else if e = backslash then map_option ((#) backslash) (unescape rest)
            else if e = CHR ''/'' then map_option ((#) (CHR ''/'')) (unescape rest)
            else if e = CHR 0x0A then unescape rest
            else if e = CHR ''u'' then
              (case rest of
                 h1 # h2 # h3 # h4 # rest' \<Rightarrow>
                   (case (hexValue h1, hexValue h2, hexValue h3, hexValue h4) of
                      (Some a, Some b, Some c', Some d) \<Rightarrow>
                        if a = 0 \<and> b = 0
                        then map_option ((#) (char_of (c' * 16 + d))) (unescape rest')
                        else None
                    | _ \<Rightarrow> None)
               | _ \<Rightarrow> None)
            else None)
      else if (of_char c :: nat) < 0x20 then None
      else map_option ((#) c) (unescape cs))"

definition parseString :: "string \<Rightarrow> string option" where
  "parseString s = (case s of [] \<Rightarrow> None | c # cs \<Rightarrow> if c = dquote then unescape cs else None)"

text \<open>
  The tag function \<^verbatim>\<open>dedent\<close> of the library the bundler imports (version 0.7.0, the one
  \<^verbatim>\<open>package.json\<close> asks for), on ASCII text. It receives the raw strings between the
  placeholders of a template and the values of the placeholders. It joins the lines of a
  raw string that end with a backslash, unescapes the backticks, puts the values between
  the raw strings, removes from every line that starts with a blank the smallest
  indentation of an indented line, trims the text, and last replaces every backslash
  followed by \<^verbatim>\<open>n\<close> in the whole text, values included, by a line break.
\<close>

definition isSpace :: "char \<Rightarrow> bool" where
  "isSpace c = (c = CHR 0x09 \<or> c = CHR 0x0A \<or> c = CHR 0x0B \<or> c = CHR 0x0C \<or> c = CHR 0x0D
                \<or> c = CHR '' '')"

function joinSuppressed :: "string \<Rightarrow> string" where
  "joinSuppressed [] = []"
| "joinSuppressed [a] = [a]"
| "joinSuppressed (a # b # cs) =
     (if a = backslash \<and> b = CHR 0x0A
      then joinSuppressed (dropWhile (\<lambda>c. c = CHR '' '' \<or> c = CHR 0x09) cs)
      else a # joinSuppressed (b # cs))"
  by pat_completeness auto
termination
  by (relation "measure length") (auto simp: le_imp_less_Suc length_dropWhile_le less_Suc_eq_le
        intro: le_SucI)

fun unescapeBackticks :: "string \<Rightarrow> string" where
  "unescapeBackticks (a # b # cs) =
     (if a = backslash \<and> b = CHR 0x60 then CHR 0x60 # unescapeBackticks cs
      else a # unescapeBackticks (b # cs))"
| "unescapeBackticks cs = cs"

fun interpolate :: "string list \<Rightarrow> string list \<Rightarrow> string" where
  "interpolate [] vs = []"
| "interpolate (r # rs) [] = unescapeBackticks (joinSuppressed r) @ interpolate rs []"
| "interpolate (r # rs) (v # vs) = unescapeBackticks (joinSuppressed r) @ v @ interpolate rs vs"

fun splitLines :: "string \<Rightarrow> string list" where
  "splitLines [] = [[]]"
| "splitLines (c # cs) =
     (if c = CHR 0x0A then [] # splitLines cs
      else (case splitLines cs of [] \<Rightarrow> [[c]] | l # ls \<Rightarrow> (c # l) # ls))"

definition indentOf :: "string \<Rightarrow> nat option" where
  "indentOf l =
     (let ws = takeWhile isSpace l
      in if ws \<noteq> [] \<and> length ws < length l then Some (length ws) else None)"

fun minIndent :: "string list \<Rightarrow> nat option \<Rightarrow> nat option" where
  "minIndent [] mindent = mindent"
| "minIndent (l # ls) mindent =
     (case indentOf l of
        None \<Rightarrow> minIndent ls mindent
      | Some i \<Rightarrow>
          minIndent ls (case mindent of None \<Rightarrow> Some i
                        | Some m \<Rightarrow> if m = 0 then Some i else Some (min m i)))"

fun joinLines :: "string list \<Rightarrow> string" where
  "joinLines [] = []"
| "joinLines [l] = l"
| "joinLines (l # ls) = l @ CHR 0x0A # joinLines ls"

definition trim :: "string \<Rightarrow> string" where
  "trim s = rev (dropWhile isSpace (rev (dropWhile isSpace s)))"

fun escapedNewlines :: "string \<Rightarrow> string" where
  "escapedNewlines (a # b # cs) =
     (if a = backslash \<and> b = CHR ''n'' then CHR 0x0A # escapedNewlines cs
      else a # escapedNewlines (b # cs))"
| "escapedNewlines cs = cs"

definition dedent :: "string list \<Rightarrow> string list \<Rightarrow> string" where
  "dedent raw vals =
     (let res = interpolate raw vals;
          ls = splitLines res;
          res' = (case minIndent ls None of
                    None \<Rightarrow> res
                  | Some m \<Rightarrow>
                      joinLines (map (\<lambda>l. if l \<noteq> [] \<and> hd l = CHR '' '' then drop m l else l) ls))
      in escapedNewlines (trim res'))"

text \<open>
  The two templates of \<^verbatim>\<open>registerActivities\<close>, as the raw strings between the
  placeholders that \<^verbatim>\<open>dedent\<close> receives, with the indentation they have in the source.
\<close>

definition importTemplate :: "string list" where
  "importTemplate =
     [''\<newline>        import { scheduleActivity } from '@temporalio/workflow';\<newline>      '']"

definition stubTemplate :: "string list" where
  "stubTemplate =
     [''\<newline>            export function '',
      ''(...args) {\<newline>              return scheduleActivity('',
      '', args);\<newline>            }\<newline>            '',
      ''.type = '',
      '';\<newline>          '']"

text \<open>
  What the method uses of Node: \<^verbatim>\<open>path.resolve\<close> and \<^verbatim>\<open>path.dirname\<close>, and
  \<^verbatim>\<open>vol.mkdirSync(dir, { recursive: true })\<close>, which returns or throws an error with a
  code. The volume is the map from the paths of its files to their contents;
  \<^verbatim>\<open>writeFileSync\<close> sets the file at a path.
\<close>

record NodeLib =
  pathResolve :: "string \<Rightarrow> string \<Rightarrow> string"
  pathDirname :: "string \<Rightarrow> string"
  mkdirSync :: "(string \<rightharpoonup> string) \<Rightarrow> string \<Rightarrow> string option"

definition activityStub :: "string \<Rightarrow> string \<Rightarrow> string" where
  "activityStub specifier k =
     (let type = stringifyString (stringifyPair specifier k)
      in dedent stubTemplate [k, type, k, type])"

definition isFunction :: "export \<Rightarrow> bool" where
  "isFunction v = (case v of Function f \<Rightarrow> True | NotFunction \<Rightarrow> False)"

fun stubs :: "string \<Rightarrow> module \<Rightarrow> string \<Rightarrow> string" where
  "stubs specifier [] code = code"
| "stubs specifier ((k, v) # entries) code =
     (if isFunction v then stubs specifier entries (code @ activityStub specifier k)
      else stubs specifier entries code)"

definition moduleCode :: "string \<Rightarrow> module \<Rightarrow> string" where
  "moduleCode specifier m = stubs specifier m (dedent importTemplate [])"

definition modulePath :: "NodeLib \<Rightarrow> string \<Rightarrow> string \<Rightarrow> string" where
  "modulePath lib sourceDir specifier = pathResolve lib sourceDir (specifier @ ''.js'')"

fun registerActivities ::
  "NodeLib \<Rightarrow> (string \<rightharpoonup> string) \<Rightarrow> string \<Rightarrow> (string \<times> module) list \<Rightarrow>
   error + (string \<rightharpoonup> string)"
where
  "registerActivities lib vol sourceDir [] = Inr vol"
| "registerActivities lib vol sourceDir ((specifier, m) # rest) =
     (let code = moduleCode specifier m;
          p = modulePath lib sourceDir specifier
      in case mkdirSync lib vol (pathDirname lib p) of
           None \<Rightarrow> registerActivities lib (vol(p \<mapsto> code)) sourceDir rest
         | Some c \<Rightarrow>
             if c \<noteq> ''EEXIST'' then Inl (SystemError c)
             else registerActivities lib (vol(p \<mapsto> code)) sourceDir rest)"

text \<open>The names of a module's entries that are functions, in the module's order.\<close>

definition functionNames :: "module \<Rightarrow> string list" where
  "functionNames m = map fst (filter (\<lambda>(k, v). isFunction v) m)"

text \<open>
  Node on a POSIX system, with a source directory that is absolute and specifiers with
  no dot segment, and a volume in which every directory can be created.
\<close>

definition nodeLib0 :: NodeLib where
  "nodeLib0 =
     \<lparr> pathResolve = (\<lambda>dir p. dir @ ''/'' @ p),
       pathDirname = (\<lambda>p. rev (tl (dropWhile (\<lambda>c. c \<noteq> CHR ''/'') (rev p)))),
       mkdirSync = (\<lambda>vol d. None) \<rparr>"

text \<open>
  Two sets of activities. The first is the module \<^verbatim>\<open>@activities/greet\<close> with the function
  \<^verbatim>\<open>hello\<close> and a value that is not a function. The second is what
  \<^verbatim>\<open>resolveActivities\<close> makes of a file \<^verbatim>\<open>mail\notify.js\<close> that exports the function
  \<^verbatim>\<open>send\<close>: on POSIX the backslash is an ordinary character of a file name, so the
  specifier is \<^verbatim>\<open>@activities/mail\notify\<close>.
\<close>

definition activities0 :: "(string \<times> module) list" where
  "activities0 = [(''@activities/greet'', [(''hello'', Function 0), (''version'', NotFunction)])]"

definition greetHelloType :: string where
  "greetHelloType =
     [dquote, CHR ''['', backslash, dquote] @ ''@activities/greet'' @
     [backslash, dquote, CHR '','', backslash, dquote] @ ''hello'' @
     [backslash, dquote, CHR '']'', dquote]"

definition mailNotify :: string where
  "mailNotify = ''@activities/mail'' @ [backslash] @ ''notify''"

definition activities1 :: "(string \<times> module) list" where
  "activities1 = [(mailNotify, [(''send'', Function 0)])]"

text \<open>
  The literal that the stub of \<^verbatim>\<open>send\<close> gets in the generated file: after the name
  \<^verbatim>\<open>mail\<close> come three backslashes and a line break, where the doubled JSON text has four
  backslashes and the letter \<^verbatim>\<open>n\<close>.
\<close>

definition mailSendType :: string where
  "mailSendType =
     [dquote, CHR ''['', backslash, dquote] @ ''@activities/mail'' @
     [backslash, backslash, backslash, CHR 0x0A] @ ''otify'' @
     [backslash, dquote, CHR '','', backslash, dquote] @ ''send'' @
     [backslash, dquote, CHR '']'', dquote]"

lemma hexDigit_value: "n < 16 \<Longrightarrow> hexValue (hexDigit n) = Some n"
  by (cases "n < 10") (simp_all add: hexDigit_def hexValue_def)

lemma hexValue_zero: "hexValue (CHR ''0'') = Some 0"
  by (simp add: hexValue_def)

lemma unescape_quoteJSONChar:
  "unescape (quoteJSONChar c @ rest) = map_option ((#) c) (unescape rest)"
proof -
  let ?n = "of_char c :: nat"
  consider (b) "c = CHR 0x08" | (t) "c = CHR 0x09" | (n) "c = CHR 0x0A" | (f) "c = CHR 0x0C"
    | (r) "c = CHR 0x0D" | (q) "c = dquote" | (s) "c = backslash"
    | (ctl) "c \<noteq> CHR 0x08" "c \<noteq> CHR 0x09" "c \<noteq> CHR 0x0A" "c \<noteq> CHR 0x0C" "c \<noteq> CHR 0x0D"
        "c \<noteq> dquote" "c \<noteq> backslash" "?n < 0x20"
    | (plain) "c \<noteq> CHR 0x08" "c \<noteq> CHR 0x09" "c \<noteq> CHR 0x0A" "c \<noteq> CHR 0x0C" "c \<noteq> CHR 0x0D"
        "c \<noteq> dquote" "c \<noteq> backslash" "\<not> ?n < 0x20"
    by blast
  then show ?thesis
  proof cases
    case ctl
    have d: "?n div 16 < 16" "?n mod 16 < 16" using ctl(8) by simp_all
    have "char_of (?n div 16 * 16 + ?n mod 16) = c" by simp
    with ctl d show ?thesis
      by (simp add: quoteJSONChar_def hexDigit_value hexValue_zero backslash_def dquote_def)
  qed (simp_all add: quoteJSONChar_def backslash_def dquote_def)
qed

lemma unescape_quoted:
  "unescape (concat (map quoteJSONChar s) @ [dquote]) = Some s"
  by (induction s) (simp_all add: unescape_quoteJSONChar)

lemma parseString_stringifyString: "parseString (stringifyString s) = Some s"
  by (simp add: parseString_def stringifyString_def unescape_quoted)

lemma stubs_eq:
  "stubs specifier m code = code @ concat (map (activityStub specifier) (functionNames m))"
  by (induction m arbitrary: code) (auto simp: functionNames_def)

lemma moduleCode_eq:
  "moduleCode specifier m =
     dedent importTemplate [] @ concat (map (activityStub specifier) (functionNames m))"
  by (simp add: moduleCode_def stubs_eq)

lemma functionNames_filter:
  "functionNames (filter (\<lambda>(k, v). isFunction v) m) = functionNames m"
  by (simp add: functionNames_def)

lemma moduleCode_functions_only:
  "moduleCode specifier (filter (\<lambda>(k, v). isFunction v) m) = moduleCode specifier m"
  by (simp add: moduleCode_eq functionNames_filter)

lemma import_line:
  "dedent importTemplate [] = ''import { scheduleActivity } from '@temporalio/workflow';''"
  by (simp add: dedent_def importTemplate_def indentOf_def isSpace_def trim_def backslash_def
      Let_def)

lemma greetHelloType_eq:
  "stringifyString (stringifyPair ''@activities/greet'' ''hello'') = greetHelloType"
  by (simp add: stringifyString_def stringifyPair_def quoteJSONChar_def greetHelloType_def
      backslash_def dquote_def)

lemma greet_stub:
  "dedent stubTemplate [''hello'', greetHelloType, ''hello'', greetHelloType] =
     ''export function hello(...args) {\<newline>  return scheduleActivity('' @ greetHelloType @
     '', args);\<newline>}\<newline>hello.type = '' @ greetHelloType @ '';''"
  by (simp add: dedent_def stubTemplate_def greetHelloType_def indentOf_def isSpace_def
      trim_def backslash_def dquote_def Let_def)

text \<open>
  The file generated for \<^verbatim>\<open>@activities/greet\<close>: the import line, then the stub of
  \<^verbatim>\<open>hello\<close>, whose literal is the doubled JSON text of the pair and reads back as
  \<^verbatim>\<open>JSON.stringify(['@activities/greet', 'hello'])\<close>; the entry \<^verbatim>\<open>version\<close> adds nothing.
\<close>

lemma register_greet:
  "registerActivities nodeLib0 Map.empty ''/src'' activities0 =
     Inr [''/src/@activities/greet.js'' \<mapsto>
       ''import { scheduleActivity } from '@temporalio/workflow';'' @
       ''export function hello(...args) {\<newline>  return scheduleActivity('' @
       greetHelloType @ '', args);\<newline>}\<newline>hello.type = '' @ greetHelloType @ '';'']"
  by (simp add: activities0_def nodeLib0_def modulePath_def moduleCode_eq functionNames_def
      isFunction_def activityStub_def Let_def greetHelloType_eq greet_stub import_line)

lemma greet_type_reads_back:
  "parseString greetHelloType = Some (stringifyPair ''@activities/greet'' ''hello'')"
  using parseString_stringifyString [of "stringifyPair ''@activities/greet'' ''hello''"]
  by (simp add: greetHelloType_eq)

lemma mailSendType_doubled:
  "stringifyString (stringifyPair mailNotify ''send'') =
     [dquote, CHR ''['', backslash, dquote] @ ''@activities/mail'' @
     [backslash, backslash, backslash, backslash, CHR ''n''] @ ''otify'' @
     [backslash, dquote, CHR '','', backslash, dquote] @ ''send'' @
     [backslash, dquote, CHR '']'', dquote]"
  by (simp add: stringifyString_def stringifyPair_def quoteJSONChar_def mailNotify_def
      backslash_def dquote_def)

lemma mail_stub:
  "activityStub mailNotify ''send'' =
     ''export function send(...args) {\<newline>  return scheduleActivity('' @ mailSendType @
     '', args);\<newline>}\<newline>send.type = '' @ mailSendType @ '';''"
  unfolding activityStub_def Let_def mailSendType_doubled
  by (simp add: dedent_def stubTemplate_def mailSendType_def indentOf_def isSpace_def
      trim_def backslash_def dquote_def Let_def)

text \<open>
  C8 at the specifier \<^verbatim>\<open>@activities/mail\notify\<close> with the function \<^verbatim>\<open>send\<close>. The bundler
  writes the file at \<^verbatim>\<open>/src/@activities/mail\notify.js\<close>: the import line and the stub of
  \<^verbatim>\<open>send\<close>. The literal of the stub, the same in the call of \<^verbatim>\<open>scheduleActivity\<close> and in
  \<^verbatim>\<open>send.type\<close>, is not the doubled JSON text of the pair: \<^verbatim>\<open>dedent\<close> has replaced the
  last backslash of the specifier's escaped backslash and the \<^verbatim>\<open>n\<close> after it by a line
  break. The literal denotes \<^verbatim>\<open>["@activities/mail\otify","send"]\<close>, which is not
  \<^verbatim>\<open>JSON.stringify([S, 'send'])\<close>, the text with the backslash doubled and the \<^verbatim>\<open>n\<close>
  kept.
\<close>

theorem C8_stub_type_is_not_the_stringified_pair:
  "registerActivities nodeLib0 Map.empty ''/src'' activities1 =
     Inr [''/src/@activities/mail'' @ [backslash] @ ''notify.js'' \<mapsto>
       ''import { scheduleActivity } from '@temporalio/workflow';'' @
       ''export function send(...args) {\<newline>  return scheduleActivity('' @
       mailSendType @ '', args);\<newline>}\<newline>send.type = '' @ mailSendType @ '';''] \<and>
   parseString mailSendType =
     Some (''[\"@activities/mail'' @ [backslash] @ ''otify\",\"send\"]'') \<and>
   stringifyPair mailNotify ''send'' =
     ''[\"@activities/mail'' @ [backslash, backslash] @ ''notify\",\"send\"]'' \<and>
   parseString mailSendType \<noteq> Some (stringifyPair mailNotify ''send'')"
proof (intro conjI)
  show "registerActivities nodeLib0 Map.empty ''/src'' activities1 =
     Inr [''/src/@activities/mail'' @ [backslash] @ ''notify.js'' \<mapsto>
       ''import { scheduleActivity } from '@temporalio/workflow';'' @
       ''export function send(...args) {\<newline>  return scheduleActivity('' @
       mailSendType @ '', args);\<newline>}\<newline>send.type = '' @ mailSendType @ '';'']"
    by (simp add: activities1_def nodeLib0_def modulePath_def moduleCode_eq functionNames_def
        isFunction_def mail_stub import_line)
       (simp add: mailNotify_def)
  show p: "parseString mailSendType =
     Some (''[\"@activities/mail'' @ [backslash] @ ''otify\",\"send\"]'')"
    by (simp add: parseString_def mailSendType_def backslash_def dquote_def)
  show s: "stringifyPair mailNotify ''send'' =
     ''[\"@activities/mail'' @ [backslash, backslash] @ ''notify\",\"send\"]''"
    by (simp add: stringifyPair_def stringifyString_def quoteJSONChar_def mailNotify_def
        backslash_def dquote_def)
  show "parseString mailSendType \<noteq> Some (stringifyPair mailNotify ''send'')"
    unfolding p s by (simp add: backslash_def)
qed

end
